theory Spec2Isabelle
  imports Complex_Main "HOL-Library.Word" "HOL-Library.Monad_Syntax"
begin

unbundle bit_operations_syntax

section \<open>The pose blend operator of pose\_lib\_2.c\<close>

text \<open>
  A shallow embedding of \<^verbatim>\<open>source/blender/editors/armature/pose_lib_2.c\<close>.
  The context \<^verbatim>\<open>bContext *C\<close> and the operator \<^verbatim>\<open>wmOperator *op\<close> are one record,
  \<open>world\<close>, that every function takes and returns. A function that dereferences a
  pointer returns \<open>None\<close> where the pointer is NULL or dangling (undefined behaviour in C);
  \<open>BLI_assert\<close> is compiled out, as in a release build.
\<close>

subsection \<open>Floats\<close>

text \<open>
  The values of a C \<^verbatim>\<open>float\<close> that the blend factor can hold: a number, one of the two
  infinities, or NaN. A finite float is the real number it denotes; \<open>FLT r\<close> ranges over all
  reals, which is more than the finite floats, so what holds of every \<open>c_float\<close> holds of every
  \<^verbatim>\<open>float\<close>. The file compares factors and stores them, it never computes with them. The
  channel values of a pose and the keys of an action, which the file hands on and never
  looks at, are lists of reals.
  \<open>float_lt\<close> and \<open>float_gt\<close> are the operators \<^verbatim>\<open><\<close> and \<^verbatim>\<open>>\<close> of C: a comparison with NaN is
  false.
\<close>

datatype c_float = FLT real | PLUS_INFINITY | MINUS_INFINITY | NAN

fun float_lt :: "c_float \<Rightarrow> c_float \<Rightarrow> bool" where
  "float_lt (FLT a) (FLT b) = (a < b)"
| "float_lt (FLT a) PLUS_INFINITY = True"
| "float_lt MINUS_INFINITY (FLT b) = True"
| "float_lt MINUS_INFINITY PLUS_INFINITY = True"
| "float_lt _ _ = False"

definition float_gt :: "c_float \<Rightarrow> c_float \<Rightarrow> bool" where
  "float_gt a b = float_lt b a"

text \<open>The closed interval [0, 1]: the numbers from 0 to 1, no infinity and not NaN.\<close>

definition unit_interval :: "c_float \<Rightarrow> bool" where
  "unit_interval f = (case f of FLT r \<Rightarrow> 0 \<le> r \<and> r \<le> 1 | _ \<Rightarrow> False)"

subsection \<open>Data\<close>

datatype ePoseBlendState =
    POSE_BLEND_INIT
  | POSE_BLEND_BLENDING
  | POSE_BLEND_ORIGINAL
  | POSE_BLEND_CONFIRM
  | POSE_BLEND_CANCEL

text \<open>
  The event types and values that the file names (\<^verbatim>\<open>WM_types.h\<close>); every other one is
  \<open>EVT_OTHER n\<close> or \<open>KM_OTHER n\<close>. \<open>EVENT_NONE\<close> is the value 0 that \<^verbatim>\<open>MEM_callocN\<close> leaves.
\<close>

datatype event_type =
    EVENT_NONE
  | MOUSEMOVE
  | EVT_ESCKEY
  | RIGHTMOUSE
  | LEFTMOUSE
  | EVT_RETKEY
  | EVT_PADENTER
  | EVT_SPACEKEY
  | EVT_TABKEY
  | EVT_FKEY
  | EVT_OTHER nat

datatype event_val = KM_NOTHING | KM_PRESS | KM_RELEASE | KM_OTHER nat

record wmEvent =
  type :: event_type
  val :: event_val
  xy :: "int \<times> int"

datatype operator_result =
    OPERATOR_RUNNING_MODAL
  | OPERATOR_CANCELLED
  | OPERATOR_FINISHED

text \<open>
  A pose channel: the bone's name, its local transform (the channel values, never inspected
  by this file) and whether \<^verbatim>\<open>PBONE_SELECTED\<close> holds of its bone.
\<close>

record bPoseChannel =
  name :: string
  xform :: "real list"
  selected :: bool

record bPose =
  chanbase :: "bPoseChannel list"
  flag :: "16 word"

datatype bArmature = Armature

record Object =
  pose :: "bPose option"
  data :: "bArmature option"

text \<open>An action: the names of its groups, in order, and its F-curves (path and keys).\<close>

record bAction =
  groups :: "string list"
  curves :: "(string \<times> real list) list"

text \<open>
  Modelled from the spec: \<^verbatim>\<open>struct PoseBackup\<close> (\<^verbatim>\<open>BKE_pose_backup.h\<close>) is defined outside
  this file. It is the sparse snapshot of section 3: the saved transform of each recorded bone, by name, and the
  "selection-relevant" flag.
\<close>

record PoseBackup =
  is_bone_selection_relevant :: bool
  backups :: "(string \<times> real list) list"

text \<open>
  Modelled from the spec: \<^verbatim>\<open>struct tSlider\<close> (\<^verbatim>\<open>ED_util.h\<close>) is defined outside this
  file. It is the input-to-factor mapper of section 4.4: its factor, whether overshoot beyond [0, 1] is allowed,
  and the pointer position it last saw.
\<close>

record tSlider =
  factor :: c_float
  allow_overshoot :: bool
  last_cursor :: int

text \<open>
  The model has one object, the pose armature of the context; a non-NULL \<^verbatim>\<open>Object *\<close> points
  to it.
\<close>

datatype Object_ptr = POSE_OBJECT

text \<open>
  \<^verbatim>\<open>PoseBlendData\<close>. Pointers are options (\<open>None\<close> is NULL); \<open>act\<close> is an address in the heap of
  actions. \<open>scene\<close>, \<open>area\<close> and \<open>headerstr\<close> serve the status text and auto-keying lookups
  only and are left out.
\<close>

record PoseBlendData =
  state :: ePoseBlendState
  needs_redraw :: bool
  use_release_confirm :: bool
  init_event_type :: event_type
  temp_id_consumer :: bool
  blend_factor :: c_float
  pose_backup :: "PoseBackup option"
  ob :: "Object_ptr option"
  act :: "nat option"
  free_action :: bool
  slider :: "tSlider option"

text \<open>What the functions emit to the collaborators, in order.\<close>

datatype effect =
    DEG_id_tag_update
  | WM_event_add_notifier_pose
  | WM_event_add_notifier_keyframe
  | ANIM_apply_keyingset "string list"
  | ED_area_status_text
  | ED_workspace_status_text "string option"
  | ED_slider_destroy
  | WM_event_add_mousemove
  | WM_cursor_modal_set
  | WM_cursor_modal_restore
  | WM_event_add_modal_handler

text \<open>
  The context and the operator. \<open>pose_object\<close> is what
  \<^verbatim>\<open>BKE_object_pose_armature_get(CTX_data_active_object(C))\<close> yields; \<open>asset_local_id\<close> is the
  action that the asset handle of the context resolves to (\<open>None\<close> when it does not);
  \<open>actions\<close> is the heap of actions, a freed cell being \<open>None\<close>; \<open>interface_locked\<close> is
  the lock of the window manager, read by \<^verbatim>\<open>CTX_wm_interface_locked\<close> and written by
  \<^verbatim>\<open>WM_set_locked_interface\<close>; \<open>can_autokey\<close> is \<^verbatim>\<open>autokeyframe_cfra_can_key\<close>,
  \<open>action_is_linked\<close> says that the object animates a linked, not editable action; \<open>trace\<close>
  holds the effects emitted so far. The \<open>prop_\<close> fields are the RNA properties of the
  operator, \<open>prop_release_confirm\<close> being \<open>None\<close> for the operator type that has no such
  property, and \<open>reports\<close> are the messages of \<^verbatim>\<open>op->reports\<close>.
\<close>

record world =
  pose_object :: "Object option"
  asset_local_id :: "nat option"
  actions :: "bAction option list"
  interface_locked :: bool
  can_autokey :: bool
  action_is_linked :: bool
  trace :: "effect list"
  customdata :: "PoseBlendData option"
  prop_blend_factor :: c_float
  prop_flipped :: bool
  prop_release_confirm :: "bool option"
  reports :: "string list"

text \<open>
  The collaborators whose arithmetic this file never sees are parameters of the model:
  \<open>pose_apply_action_blend\<close> is the effect of \<^verbatim>\<open>BKE_pose_apply_action_blend\<close> on the pose
  channels, \<open>action_flip_with_pose\<close> what \<^verbatim>\<open>BKE_action_flip_with_pose\<close> makes of an action
  on a pose (section 4.3 of the spec: the pose itself is left as it was),
  \<open>slider_raw_factor\<close> the factor that the slider computes from a pointer motion,
  \<open>slider_status_string\<close> is \<^verbatim>\<open>ED_slider_status_string_get\<close> and
  \<open>userdef_event_type\<close> is \<^verbatim>\<open>WM_userdef_event_type_from_keymap_type\<close>.
\<close>

record kernel =
  pose_apply_action_blend :: "bPoseChannel list \<Rightarrow> bAction \<Rightarrow> c_float \<Rightarrow> bPoseChannel list"
  action_flip_with_pose :: "bAction \<Rightarrow> bPose \<Rightarrow> bAction"
  slider_raw_factor :: "tSlider \<Rightarrow> wmEvent \<Rightarrow> c_float"
  slider_status_string :: "tSlider \<Rightarrow> string"
  userdef_event_type :: "event_type \<Rightarrow> event_type"

subsection \<open>Blend factor\<close>

text \<open>
  Modelled from the spec: the macro \<^verbatim>\<open>CLAMPIS\<close> (\<^verbatim>\<open>BLI_utildefines.h\<close>) is defined outside
  this file. The spec has the factor hard-clamped to the closed interval, not wrapped: a value
  below the lower bound becomes the lower bound, one above the upper bound the upper bound, and
  every other value is kept. "Below" and "above" are the comparisons of C, so NaN, which is
  neither, is kept.
\<close>

definition CLAMPIS :: "c_float \<Rightarrow> c_float \<Rightarrow> c_float \<Rightarrow> c_float" where
  "CLAMPIS a b c = (if float_lt a b then b else if float_gt a c then c else a)"

definition poselib_blend_set_factor :: "PoseBlendData \<Rightarrow> c_float \<Rightarrow> PoseBlendData" where
  "poselib_blend_set_factor pbd new_factor =
     pbd\<lparr>blend_factor := CLAMPIS new_factor (FLT 0) (FLT 1), needs_redraw := True\<rparr>"

subsection \<open>Collaborators\<close>

text \<open>
  Modelled from the spec: \<^verbatim>\<open>BKE_pose_channel_find_name\<close> (\<^verbatim>\<open>BKE_action.h\<close>) is defined
  outside this file. It finds the pose channel of a bone by the bone's name, NULL when the rig
  has none.
\<close>

definition BKE_pose_channel_find_name :: "bPose \<Rightarrow> string \<Rightarrow> bPoseChannel option" where
  "BKE_pose_channel_find_name po n = find (\<lambda>pchan. name pchan = n) (chanbase po)"

text \<open>
  Modelled from the spec: \<^verbatim>\<open>BKE_pose_backup_create_selected_bones\<close>,
  \<^verbatim>\<open>BKE_pose_backup_restore\<close> and \<^verbatim>\<open>BKE_pose_backup_is_selection_relevant\<close>
  (\<^verbatim>\<open>BKE_pose_backup.h\<close>) are defined outside this file. Section 4.1: create takes every bone named in the groups of the target pose that exists on the
  rig; if any bone in that set is selected it records only the selected ones, otherwise all of
  them. Restore writes every recorded transform back onto the matching bone by identifier and
  skips the bones that are missing. \<^verbatim>\<open>BKE_pose_backup_free\<close> releases the backup and has no
  other effect.
\<close>

definition BKE_pose_backup_create_selected_bones :: "bPose \<Rightarrow> bAction \<Rightarrow> PoseBackup" where
  "BKE_pose_backup_create_selected_bones po action =
     (let affected = List.map_filter (BKE_pose_channel_find_name po) (groups action);
          relevant = list_ex selected affected;
          recorded = (if relevant then filter selected affected else affected)
      in \<lparr>is_bone_selection_relevant = relevant,
          backups = map (\<lambda>pchan. (name pchan, xform pchan)) recorded\<rparr>)"

definition BKE_pose_backup_restore :: "PoseBackup \<Rightarrow> bPose \<Rightarrow> bPose" where
  "BKE_pose_backup_restore pbd_backup po =
     po\<lparr>chanbase :=
          map (\<lambda>pchan. case map_of (backups pbd_backup) (name pchan) of
                         None \<Rightarrow> pchan
                       | Some t \<Rightarrow> pchan\<lparr>xform := t\<rparr>)
              (chanbase po)\<rparr>"

definition BKE_pose_backup_is_selection_relevant :: "PoseBackup \<Rightarrow> bool" where
  "BKE_pose_backup_is_selection_relevant pbd_backup = is_bone_selection_relevant pbd_backup"

text \<open>
  Modelled from the spec: the slider functions \<^verbatim>\<open>ED_slider_*\<close> (\<^verbatim>\<open>ED_util.h\<close>) are
  defined outside this file. Section 4.4: the mapper turns pointer motion, and nothing else, into
  a factor, which is hard-clamped to [0, 1] when overshoot is disallowed (\<open>slider_clamp\<close>).
  What the slider holds when it is created is overwritten by \<^verbatim>\<open>poselib_blend_init_data\<close>
  before it is read.
\<close>

definition slider_clamp :: "c_float \<Rightarrow> c_float" where
  "slider_clamp r =
     (if float_gt r (FLT 1) then FLT 1 else if float_lt r (FLT 0) then FLT 0 else r)"

definition ED_slider_create :: tSlider where
  "ED_slider_create = \<lparr>factor = FLT 0, allow_overshoot = True, last_cursor = 0\<rparr>"

definition ED_slider_init :: "tSlider \<Rightarrow> wmEvent \<Rightarrow> tSlider" where
  "ED_slider_init s event = s\<lparr>last_cursor := fst (xy event)\<rparr>"

definition ED_slider_factor_set :: "tSlider \<Rightarrow> c_float \<Rightarrow> tSlider" where
  "ED_slider_factor_set s f = s\<lparr>factor := f\<rparr>"

definition ED_slider_factor_get :: "tSlider \<Rightarrow> c_float" where
  "ED_slider_factor_get s = factor s"

definition ED_slider_allow_overshoot_set :: "tSlider \<Rightarrow> bool \<Rightarrow> tSlider" where
  "ED_slider_allow_overshoot_set s v = s\<lparr>allow_overshoot := v\<rparr>"

definition ED_slider_modal :: "kernel \<Rightarrow> tSlider \<Rightarrow> wmEvent \<Rightarrow> tSlider" where
  "ED_slider_modal K s event =
     (if type event = MOUSEMOVE
      then (let r = slider_raw_factor K s event
            in s\<lparr>factor := (if allow_overshoot s then r else slider_clamp r),
                 last_cursor := fst (xy event)\<rparr>)
      else s)"

text \<open>
  Modelled from the spec: \<^verbatim>\<open>BKE_id_copy_ex\<close> and \<^verbatim>\<open>BKE_id_free\<close> (\<^verbatim>\<open>BKE_lib_id.h\<close>) are
  defined outside this file. Section 4.3 has a flip return a new, independently owned pose, and
  section 4.6 has an owned pose released: a copy is allocated in a new cell of the heap of
  actions, and freeing empties a cell. Freeing through a pointer to no live action is undefined.
\<close>

definition id_deref :: "world \<Rightarrow> nat option \<Rightarrow> bAction option" where
  "id_deref w p =
     (case p of None \<Rightarrow> None
      | Some i \<Rightarrow> if i < length (actions w) then actions w ! i else None)"

definition BKE_id_copy_ex :: "world \<Rightarrow> bAction \<Rightarrow> nat \<times> world" where
  "BKE_id_copy_ex w action = (length (actions w), w\<lparr>actions := actions w @ [Some action]\<rparr>)"

definition BKE_id_free :: "world \<Rightarrow> nat option \<Rightarrow> world option" where
  "BKE_id_free w p =
     (case p of None \<Rightarrow> None
      | Some i \<Rightarrow>
          (case id_deref w p of None \<Rightarrow> None
           | Some _ \<Rightarrow> Some (w\<lparr>actions := (actions w)[i := None]\<rparr>)))"

text \<open>Reading and writing \<^verbatim>\<open>ob->pose\<close> through an object pointer.\<close>

definition ob_pose :: "world \<Rightarrow> Object_ptr option \<Rightarrow> bPose option" where
  "ob_pose w p = do { _ \<leftarrow> p; obj \<leftarrow> pose_object w; pose obj }"

definition set_ob_pose :: "world \<Rightarrow> bPose \<Rightarrow> world" where
  "set_ob_pose w po = w\<lparr>pose_object := map_option (\<lambda>obj. obj\<lparr>pose := Some po\<rparr>) (pose_object w)\<rparr>"

text \<open>
  Modelled from the spec: the flags \<^verbatim>\<open>POSE_LOCKED\<close> and \<^verbatim>\<open>POSE_DO_UNLOCK\<close> of \<^verbatim>\<open>bPose.flag\<close>
  (\<^verbatim>\<open>DNA_action_types.h\<close>) are defined outside this file. Section 5 has the rig marked locked
  and the unlock requested: they are two distinct bits, \<^verbatim>\<open>(1 << 1)\<close> and \<^verbatim>\<open>(1 << 2)\<close>.
\<close>

definition POSE_LOCKED :: "16 word" where
  "POSE_LOCKED = push_bit 1 1"

definition POSE_DO_UNLOCK :: "16 word" where
  "POSE_DO_UNLOCK = push_bit 2 1"

subsection \<open>The operator\<close>

definition poselib_backup_posecopy :: "world \<Rightarrow> PoseBlendData \<Rightarrow> PoseBlendData option" where
  "poselib_backup_posecopy w pbd = do {
     po \<leftarrow> ob_pose w (ob pbd);
     action \<leftarrow> id_deref w (act pbd);
     let pbd = pbd\<lparr>pose_backup := Some (BKE_pose_backup_create_selected_bones po action)\<rparr>;
     Some (if state pbd = POSE_BLEND_INIT then pbd\<lparr>state := POSE_BLEND_BLENDING\<rparr> else pbd)
   }"

text \<open>
  Auto-keying: the bones of the groups of the action that the rig has, the selected ones only
  when the backup is selection-relevant, are handed to the keying set. The backup is read only
  when a group names a bone of the rig.
\<close>

definition poselib_keytag_pose :: "world \<Rightarrow> PoseBlendData \<Rightarrow> world option" where
  "poselib_keytag_pose w pbd = do {
     _ \<leftarrow> ob pbd;
     _ \<leftarrow> pose_object w;
     if \<not> can_autokey w then Some w
     else if action_is_linked w then Some w
     else do {
       po \<leftarrow> ob_pose w (ob pbd);
       action \<leftarrow> id_deref w (act pbd);
       let found = List.map_filter (BKE_pose_channel_find_name po) (groups action);
       dsources \<leftarrow>
         (if found = [] then Some []
          else do {
            b \<leftarrow> pose_backup pbd;
            Some (filter (\<lambda>pchan. \<not> (BKE_pose_backup_is_selection_relevant b \<and>
                                        \<not> selected pchan)) found)
          });
       Some (w\<lparr>trace := trace w @
                  [ANIM_apply_keyingset (map name dsources), WM_event_add_notifier_keyframe]\<rparr>)
     }
   }"

definition poselib_blend_apply :: "kernel \<Rightarrow> world \<Rightarrow> world option" where
  "poselib_blend_apply K w = do {
     pbd \<leftarrow> customdata w;
     if \<not> needs_redraw pbd then Some w
     else do {
       let pbd = pbd\<lparr>needs_redraw := False\<rparr>;
       b \<leftarrow> pose_backup pbd;
       po \<leftarrow> ob_pose w (ob pbd);
       let po = BKE_pose_backup_restore b po;
       let w = (set_ob_pose w po)\<lparr>customdata := Some pbd,
                  trace := trace w @ [DEG_id_tag_update, WM_event_add_notifier_pose]\<rparr>;
       if state pbd \<noteq> POSE_BLEND_BLENDING then Some w
       else do {
         action \<leftarrow> id_deref w (act pbd);
         Some (set_ob_pose w
                 (po\<lparr>chanbase :=
                       pose_apply_action_blend K (chanbase po) action (blend_factor pbd)\<rparr>))
       }
     }
   }"

definition flip_pose ::
  "kernel \<Rightarrow> world \<Rightarrow> Object_ptr option \<Rightarrow> nat option \<Rightarrow> (nat \<times> world) option" where
  "flip_pose K w obp action = do {
     a \<leftarrow> id_deref w action;
     let (action_copy, w) = BKE_id_copy_ex w a;
     let interface_was_locked = interface_locked w;
     let w = w\<lparr>interface_locked := True\<rparr>;
     po \<leftarrow> ob_pose w obp;
     let w = w\<lparr>actions := (actions w)[action_copy := Some (action_flip_with_pose K a po)]\<rparr>;
     let w = w\<lparr>interface_locked := interface_was_locked\<rparr>;
     Some (action_copy, w)
   }"

definition poselib_blend_flip_pose :: "kernel \<Rightarrow> world \<Rightarrow> world option" where
  "poselib_blend_flip_pose K w = do {
     pbd \<leftarrow> customdata w;
     let old_action = act pbd;
     (new_action, w) \<leftarrow> flip_pose K w (ob pbd) old_action;
     b \<leftarrow> pose_backup pbd;
     po \<leftarrow> ob_pose w (ob pbd);
     let w = set_ob_pose w (BKE_pose_backup_restore b po);
     let pbd = pbd\<lparr>pose_backup := None\<rparr>;
     w \<leftarrow> (if free_action pbd then BKE_id_free w old_action else Some w);
     let pbd = pbd\<lparr>free_action := True, act := Some new_action, needs_redraw := True\<rparr>;
     pbd \<leftarrow> poselib_backup_posecopy w pbd;
     Some (w\<lparr>customdata := Some pbd\<rparr>)
   }"

definition poselib_blend_handle_event ::
  "kernel \<Rightarrow> world \<Rightarrow> wmEvent \<Rightarrow> (operator_result \<times> world) option" where
  "poselib_blend_handle_event K w event = do {
     pbd \<leftarrow> customdata w;
     s \<leftarrow> slider pbd;
     let s = ED_slider_modal K s event;
     let pbd = poselib_blend_set_factor (pbd\<lparr>slider := Some s\<rparr>) (ED_slider_factor_get s);
     let w = w\<lparr>customdata := Some pbd\<rparr>;
     if type event = MOUSEMOVE then Some (OPERATOR_RUNNING_MODAL, w)
     else if use_release_confirm pbd \<and> type event = init_event_type pbd \<and>
             val event = KM_RELEASE
     then Some (OPERATOR_RUNNING_MODAL,
                w\<lparr>customdata := Some (pbd\<lparr>state := POSE_BLEND_CONFIRM\<rparr>)\<rparr>)
     else if \<not> (val event = KM_PRESS \<or> val event = KM_NOTHING)
     then Some (OPERATOR_RUNNING_MODAL, w)
     else (case type event of
         EVT_ESCKEY \<Rightarrow>
           Some (OPERATOR_RUNNING_MODAL,
                 w\<lparr>customdata := Some (pbd\<lparr>state := POSE_BLEND_CANCEL\<rparr>)\<rparr>)
       | RIGHTMOUSE \<Rightarrow>
           Some (OPERATOR_RUNNING_MODAL,
                 w\<lparr>customdata := Some (pbd\<lparr>state := POSE_BLEND_CANCEL\<rparr>)\<rparr>)
       | LEFTMOUSE \<Rightarrow>
           Some (OPERATOR_RUNNING_MODAL,
                 w\<lparr>customdata := Some (pbd\<lparr>state := POSE_BLEND_CONFIRM\<rparr>)\<rparr>)
       | EVT_RETKEY \<Rightarrow>
           Some (OPERATOR_RUNNING_MODAL,
                 w\<lparr>customdata := Some (pbd\<lparr>state := POSE_BLEND_CONFIRM\<rparr>)\<rparr>)
       | EVT_PADENTER \<Rightarrow>
           Some (OPERATOR_RUNNING_MODAL,
                 w\<lparr>customdata := Some (pbd\<lparr>state := POSE_BLEND_CONFIRM\<rparr>)\<rparr>)
       | EVT_SPACEKEY \<Rightarrow>
           Some (OPERATOR_RUNNING_MODAL,
                 w\<lparr>customdata := Some (pbd\<lparr>state := POSE_BLEND_CONFIRM\<rparr>)\<rparr>)
       | EVT_TABKEY \<Rightarrow>
           Some (OPERATOR_RUNNING_MODAL,
                 w\<lparr>customdata := Some (pbd\<lparr>
                      state := (if state pbd = POSE_BLEND_BLENDING
                                then POSE_BLEND_ORIGINAL else POSE_BLEND_BLENDING),
                      needs_redraw := True\<rparr>)\<rparr>)
       | EVT_FKEY \<Rightarrow> do {
           w \<leftarrow> poselib_blend_flip_pose K w;
           Some (OPERATOR_RUNNING_MODAL, w)
         }
       | _ \<Rightarrow> Some (OPERATOR_RUNNING_MODAL, w))
   }"

definition get_poselib_object :: "world \<Rightarrow> Object_ptr option" where
  "get_poselib_object w = map_option (\<lambda>_. POSE_OBJECT) (pose_object w)"

text \<open>\<^verbatim>\<open>ELEM(NULL, ob, ob->pose, ob->data)\<close> on the object of the context.\<close>

definition ob_not_posable :: "world \<Rightarrow> bool" where
  "ob_not_posable w =
     (case pose_object w of None \<Rightarrow> True
      | Some obj \<Rightarrow> pose obj = None \<or> data obj = None)"

text \<open>What \<^verbatim>\<open>MEM_callocN\<close> returns: every field zero.\<close>

definition calloc_PoseBlendData :: PoseBlendData where
  "calloc_PoseBlendData =
     \<lparr>state = POSE_BLEND_INIT, needs_redraw = False, use_release_confirm = False,
      init_event_type = EVENT_NONE, temp_id_consumer = False, blend_factor = FLT 0,
      pose_backup = None, ob = None, act = None, free_action = False, slider = None\<rparr>"

definition poselib_tempload_exit :: "PoseBlendData \<Rightarrow> PoseBlendData" where
  "poselib_tempload_exit pbd = pbd\<lparr>temp_id_consumer := False\<rparr>"

definition poselib_blend_init_get_action :: "world \<Rightarrow> (nat option \<times> world) option" where
  "poselib_blend_init_get_action w = do {
     pbd \<leftarrow> customdata w;
     let pbd = pbd\<lparr>temp_id_consumer := True\<rparr>;
     Some (asset_local_id w, w\<lparr>customdata := Some pbd\<rparr>)
   }"

definition poselib_blend_init_data ::
  "kernel \<Rightarrow> world \<Rightarrow> wmEvent option \<Rightarrow> (bool \<times> world) option" where
  "poselib_blend_init_data K w event =
     (let w = w\<lparr>customdata := None\<rparr>;
          obp = get_poselib_object w
      in if ob_not_posable w
         then Some (False, w\<lparr>reports := reports w @
                                 [''Pose lib is only for armatures in pose mode'']\<rparr>)
         else do {
           let w = w\<lparr>customdata := Some calloc_PoseBlendData\<rparr>;
           (action, w) \<leftarrow> poselib_blend_init_get_action w;
           if action = None then Some (False, w)
           else do {
             pbd \<leftarrow> customdata w;
             (action, pbd, w) \<leftarrow>
               (if prop_flipped w
                then do {
                  (action_copy, w) \<leftarrow> flip_pose K w obp action;
                  Some (Some action_copy, pbd\<lparr>free_action := True\<rparr>, w)
                }
                else Some (action, pbd, w));
             let pbd = pbd\<lparr>act := action\<rparr>;
             let pbd = pbd\<lparr>ob := obp\<rparr>;
             let pbd = pbd\<lparr>state := POSE_BLEND_INIT, needs_redraw := True,
                          blend_factor := prop_blend_factor w,
                          use_release_confirm := False\<rparr>;
             let pbd = (case event of None \<Rightarrow> pbd
                        | Some ev \<Rightarrow>
                            pbd\<lparr>use_release_confirm := (prop_release_confirm w = Some True),
                                slider := Some (ED_slider_allow_overshoot_set
                                  (ED_slider_factor_set (ED_slider_init ED_slider_create ev)
                                     (blend_factor pbd)) False)\<rparr>);
             pbd \<leftarrow>
               (if use_release_confirm pbd
                then (case event of None \<Rightarrow> None
                      | Some ev \<Rightarrow>
                          Some (pbd\<lparr>init_event_type := userdef_event_type K (type ev)\<rparr>))
                else Some pbd);
             pbd \<leftarrow> poselib_backup_posecopy w pbd;
             po \<leftarrow> ob_pose w (ob pbd);
             let po = po\<lparr>flag := flag po AND NOT POSE_DO_UNLOCK\<rparr>;
             let po = po\<lparr>flag := flag po OR POSE_LOCKED\<rparr>;
             Some (True, (set_ob_pose w po)\<lparr>customdata := Some pbd\<rparr>)
           }
         })"

text \<open>
  The teardown. \<^verbatim>\<open>RNA_float_set\<close> stores the value in the property (section 4.6: the factor
  is reported back to the caller). The three states that are not terminal report the internal
  error and fall through to the branch of \<open>POSE_BLEND_CANCEL\<close>.
\<close>

definition poselib_blend_cleanup :: "world \<Rightarrow> world option" where
  "poselib_blend_cleanup w = do {
     pbd \<leftarrow> customdata w;
     let w = w\<lparr>trace := trace w @ [ED_area_status_text, ED_workspace_status_text None]\<rparr>;
     let w = (if slider pbd \<noteq> None then w\<lparr>trace := trace w @ [ED_slider_destroy]\<rparr> else w);
     po \<leftarrow> ob_pose w (ob pbd);
     let w = set_ob_pose w (po\<lparr>flag := flag po OR POSE_DO_UNLOCK\<rparr>);
     w \<leftarrow>
       (case state pbd of
          POSE_BLEND_CONFIRM \<Rightarrow> do {
            w \<leftarrow> poselib_keytag_pose w pbd;
            Some (w\<lparr>prop_blend_factor := blend_factor pbd\<rparr>)
          }
        | POSE_BLEND_CANCEL \<Rightarrow> do {
            b \<leftarrow> pose_backup pbd;
            po \<leftarrow> ob_pose w (ob pbd);
            Some (set_ob_pose w (BKE_pose_backup_restore b po))
          }
        | _ \<Rightarrow> do {
            let w = w\<lparr>reports := reports w @
                         [''Internal pose library error, canceling operator'']\<rparr>;
            b \<leftarrow> pose_backup pbd;
            po \<leftarrow> ob_pose w (ob pbd);
            Some (set_ob_pose w (BKE_pose_backup_restore b po))
          });
     Some (w\<lparr>trace := trace w @
                [DEG_id_tag_update, WM_event_add_notifier_pose, WM_event_add_mousemove]\<rparr>)
   }"

definition poselib_blend_free :: "world \<Rightarrow> world option" where
  "poselib_blend_free w =
     (case customdata w of None \<Rightarrow> Some w
      | Some pbd \<Rightarrow> do {
          w \<leftarrow> (if free_action pbd then BKE_id_free w (act pbd) else Some w);
          let pbd = poselib_tempload_exit pbd;
          let pbd = pbd\<lparr>pose_backup := None\<rparr>;
          Some (w\<lparr>customdata := None\<rparr>)
        })"

definition poselib_blend_exit :: "world \<Rightarrow> (operator_result \<times> world) option" where
  "poselib_blend_exit w = do {
     pbd \<leftarrow> customdata w;
     let exit_state = state pbd;
     w \<leftarrow> poselib_blend_cleanup w;
     w \<leftarrow> poselib_blend_free w;
     let w = w\<lparr>trace := trace w @ [WM_cursor_modal_restore]\<rparr>;
     if exit_state = POSE_BLEND_CANCEL then Some (OPERATOR_CANCELLED, w)
     else Some (OPERATOR_FINISHED, w)
   }"

definition poselib_blend_cancel :: "world \<Rightarrow> world option" where
  "poselib_blend_cancel w = do {
     pbd \<leftarrow> customdata w;
     let w = w\<lparr>customdata := Some (pbd\<lparr>state := POSE_BLEND_CANCEL\<rparr>)\<rparr>;
     (_, w) \<leftarrow> poselib_blend_exit w;
     Some w
   }"

definition poselib_blend_modal ::
  "kernel \<Rightarrow> world \<Rightarrow> wmEvent \<Rightarrow> (operator_result \<times> world) option" where
  "poselib_blend_modal K w event = do {
     (operator_result, w) \<leftarrow> poselib_blend_handle_event K w event;
     pbd \<leftarrow> customdata w;
     if state pbd = POSE_BLEND_CONFIRM \<or> state pbd = POSE_BLEND_CANCEL
     then poselib_blend_exit w
     else if needs_redraw pbd
     then do {
       s \<leftarrow> slider pbd;
       let tab_string = (if state pbd = POSE_BLEND_BLENDING
                         then ''[Tab] - Show original pose''
                         else ''[Tab] - Show blended pose'');
       let status_string = ''[F] - Flip pose | '' @ tab_string @ '' | '' @
                           slider_status_string K s;
       let w = w\<lparr>trace := trace w @ [ED_workspace_status_text (Some status_string)]\<rparr>;
       w \<leftarrow> poselib_blend_apply K w;
       Some (operator_result, w)
     }
     else Some (operator_result, w)
   }"

definition poselib_blend_invoke ::
  "kernel \<Rightarrow> world \<Rightarrow> wmEvent \<Rightarrow> (operator_result \<times> world) option" where
  "poselib_blend_invoke K w event = do {
     (ok, w) \<leftarrow> poselib_blend_init_data K w (Some event);
     if \<not> ok
     then do {
       w \<leftarrow> poselib_blend_free w;
       Some (OPERATOR_CANCELLED, w)
     }
     else do {
       let w = w\<lparr>trace := trace w @ [WM_cursor_modal_set]\<rparr>;
       w \<leftarrow> poselib_blend_apply K w;
       Some (OPERATOR_RUNNING_MODAL, w\<lparr>trace := trace w @ [WM_event_add_modal_handler]\<rparr>)
     }
   }"

definition poselib_blend_exec :: "kernel \<Rightarrow> world \<Rightarrow> (operator_result \<times> world) option" where
  "poselib_blend_exec K w = do {
     (ok, w) \<leftarrow> poselib_blend_init_data K w None;
     if \<not> ok
     then do {
       w \<leftarrow> poselib_blend_free w;
       Some (OPERATOR_CANCELLED, w)
     }
     else do {
       w \<leftarrow> poselib_blend_apply K w;
       pbd \<leftarrow> customdata w;
       let w = w\<lparr>customdata := Some (pbd\<lparr>state := POSE_BLEND_CONFIRM\<rparr>)\<rparr>;
       poselib_blend_exit w
     }
   }"

subsection \<open>The event loop\<close>


subsection \<open>Sessions\<close>

text \<open>
  \<open>session w pbd po b a\<close>: the operator of \<open>w\<close> holds the session \<open>pbd\<close>, whose object has
  the pose \<open>po\<close>, whose backup is \<open>b\<close> and whose target pose is the live action \<open>a\<close>. This is
  what \<^verbatim>\<open>poselib_blend_init_data\<close> leaves when it succeeds and what every later step keeps.
\<close>

definition session ::
  "world \<Rightarrow> PoseBlendData \<Rightarrow> bPose \<Rightarrow> PoseBackup \<Rightarrow> bAction \<Rightarrow> bool" where
  "session w pbd po b a =
     (customdata w = Some pbd \<and> ob_pose w (ob pbd) = Some po \<and>
      pose_backup pbd = Some b \<and> id_deref w (act pbd) = Some a)"

text \<open>The pose of the object of the context.\<close>

definition rig_pose :: "world \<Rightarrow> bPose option" where
  "rig_pose w = ob_pose w (Some POSE_OBJECT)"

text \<open>
  The stored factor agrees with the slider: it is the clamped reading of the slider. Opening
  a modal session with a property value in [0, 1] establishes this and every handled event
  re-establishes it.
\<close>

definition slider_synced :: "PoseBlendData \<Rightarrow> bool" where
  "slider_synced pbd =
     (case slider pbd of None \<Rightarrow> False
      | Some s \<Rightarrow> blend_factor pbd = CLAMPIS (ED_slider_factor_get s) (FLT 0) (FLT 1))"



subsection \<open>What the operations leave\<close>

text \<open>What the teardown emits before it looks at the state.\<close>

definition cleanup_trace :: "PoseBlendData \<Rightarrow> effect list" where
  "cleanup_trace pbd =
     [ED_area_status_text, ED_workspace_status_text None] @
     (if slider pbd \<noteq> None then [ED_slider_destroy] else [])"

text \<open>
  What a cancelled teardown leaves: the rig holds the restored backup, with the unlock request
  set, and the session is gone.
\<close>

definition backup_restored :: "PoseBackup \<Rightarrow> bPose \<Rightarrow> world \<Rightarrow> bool" where
  "backup_restored b po w' =
     (rig_pose w' =
        Some ((BKE_pose_backup_restore b po)\<lparr>flag := flag po OR POSE_DO_UNLOCK\<rparr>) \<and>
      customdata w' = None)"

text \<open>
  The pose that \<^verbatim>\<open>poselib_blend_apply\<close> shows: the restored backup, with the action blended
  onto it when the session is in the state \<open>POSE_BLEND_BLENDING\<close>.
\<close>

definition blended_pose ::
  "kernel \<Rightarrow> PoseBlendData \<Rightarrow> PoseBackup \<Rightarrow> bAction \<Rightarrow> bPose \<Rightarrow> bPose" where
  "blended_pose K pbd b a po =
     (let po = BKE_pose_backup_restore b po
      in if state pbd = POSE_BLEND_BLENDING
         then po\<lparr>chanbase := pose_apply_action_blend K (chanbase po) a (blend_factor pbd)\<rparr>
         else po)"

text \<open>
  The heap of actions and the session data after \<^verbatim>\<open>poselib_blend_flip_pose\<close>: the flipped copy
  sits in a new cell, the old action is freed when the session owned it, and the session owns
  the copy and has a backup taken from the restored pose.
\<close>

definition flipped_actions ::
  "kernel \<Rightarrow> world \<Rightarrow> PoseBlendData \<Rightarrow> bPose \<Rightarrow> bAction \<Rightarrow> bAction option list" where
  "flipped_actions K w pbd po a =
     (let acts = actions w @ [Some (action_flip_with_pose K a po)]
      in if free_action pbd then (case act pbd of None \<Rightarrow> acts | Some p \<Rightarrow> acts[p := None])
         else acts)"

definition flipped_session ::
  "kernel \<Rightarrow> world \<Rightarrow> PoseBlendData \<Rightarrow> bPose \<Rightarrow> PoseBackup \<Rightarrow> bAction \<Rightarrow>
   PoseBlendData" where
  "flipped_session K w pbd po b a =
     pbd\<lparr>pose_backup := Some (BKE_pose_backup_create_selected_bones
            (BKE_pose_backup_restore b po) (action_flip_with_pose K a po)),
         free_action := True, act := Some (length (actions w)), needs_redraw := True,
         state := (if state pbd = POSE_BLEND_INIT then POSE_BLEND_BLENDING else state pbd)\<rparr>"

text \<open>
  What a flip has done when it returns the world \<open>w'\<close> with the session \<open>pbd'\<close>, having started
  from the session \<open>pbd\<close> in \<open>w\<close>, with the pose \<open>po\<close>, the backup \<open>b\<close> and the target \<open>a\<close>.
\<close>

definition flip_done ::
  "kernel \<Rightarrow> world \<Rightarrow> PoseBlendData \<Rightarrow> bPose \<Rightarrow> PoseBackup \<Rightarrow> bAction \<Rightarrow>
   world \<Rightarrow> PoseBlendData \<Rightarrow> bool" where
  "flip_done K w pbd po b a w' pbd' =
     (rig_pose w' = Some (BKE_pose_backup_restore b po) \<and>
      pose_backup pbd' =
        Some (BKE_pose_backup_create_selected_bones (BKE_pose_backup_restore b po)
                (action_flip_with_pose K a po)) \<and>
      act pbd' = Some (length (actions w)) \<and>
      id_deref w' (act pbd') = Some (action_flip_with_pose K a po) \<and>
      id_deref w' (act pbd) = (if free_action pbd then None else Some a) \<and>
      free_action pbd' \<and> needs_redraw pbd' \<and> state pbd' = state pbd)"

text \<open>
  What \<^verbatim>\<open>poselib_blend_init_data\<close> leaves when it succeeds on a context whose object has the
  pose \<open>po\<close> and whose asset resolves to the action \<open>a0\<close>: the target action, the heap of
  actions, the pose with its lock flags, and the session data.
\<close>

definition init_action :: "kernel \<Rightarrow> world \<Rightarrow> bPose \<Rightarrow> bAction \<Rightarrow> bAction" where
  "init_action K w po a0 = (if prop_flipped w then action_flip_with_pose K a0 po else a0)"

definition init_actions :: "kernel \<Rightarrow> world \<Rightarrow> bPose \<Rightarrow> bAction \<Rightarrow> bAction option list" where
  "init_actions K w po a0 =
     (if prop_flipped w then actions w @ [Some (action_flip_with_pose K a0 po)] else actions w)"

definition init_pose :: "bPose \<Rightarrow> bPose" where
  "init_pose po = po\<lparr>flag := (flag po AND NOT POSE_DO_UNLOCK) OR POSE_LOCKED\<rparr>"

definition init_pbd ::
  "kernel \<Rightarrow> world \<Rightarrow> wmEvent option \<Rightarrow> bPose \<Rightarrow> bAction \<Rightarrow> PoseBlendData" where
  "init_pbd K w event po a0 =
     \<lparr>state = POSE_BLEND_BLENDING, needs_redraw = True,
      use_release_confirm = (event \<noteq> None \<and> prop_release_confirm w = Some True),
      init_event_type =
        (case event of None \<Rightarrow> EVENT_NONE
         | Some ev \<Rightarrow> if prop_release_confirm w = Some True
                      then userdef_event_type K (type ev) else EVENT_NONE),
      temp_id_consumer = True, blend_factor = prop_blend_factor w,
      pose_backup = Some (BKE_pose_backup_create_selected_bones po (init_action K w po a0)),
      ob = Some POSE_OBJECT,
      act = (if prop_flipped w then Some (length (actions w)) else asset_local_id w),
      free_action = prop_flipped w,
      slider = map_option
        (\<lambda>ev. \<lparr>factor = prop_blend_factor w, allow_overshoot = False,
               last_cursor = fst (xy ev)\<rparr>) event\<rparr>"

subsection \<open>A concrete rig\<close>

text \<open>
  A rig of two bones and a pose asset for the left arm, with collaborators that shift the
  channel values by the factor, swap the two bone names and move the slider by one unit per 300
  pixels. \<open>example_opened\<close> is the session that \<^verbatim>\<open>poselib_blend_invoke\<close> opens on it,
  \<open>example_session\<close> the session after the pointer has moved 180 pixels to the right.
\<close>

definition example_amount :: "c_float \<Rightarrow> real" where
  "example_amount f = (case f of FLT r \<Rightarrow> r | _ \<Rightarrow> 0)"

definition example_moved :: "c_float \<Rightarrow> real \<Rightarrow> c_float" where
  "example_moved f d = (case f of FLT r \<Rightarrow> FLT (r + d) | _ \<Rightarrow> f)"

definition example_kernel :: kernel where
  "example_kernel =
     \<lparr>pose_apply_action_blend =
        (\<lambda>chans action f.
           map (\<lambda>pchan. if name pchan \<in> set (groups action)
                         then pchan\<lparr>xform := map (\<lambda>v. v + example_amount f) (xform pchan)\<rparr>
                         else pchan) chans),
      action_flip_with_pose =
        (\<lambda>action po.
           action\<lparr>groups := map (\<lambda>n. if n = ''L_arm'' then ''R_arm''
                                      else if n = ''R_arm'' then ''L_arm'' else n)
                                (groups action)\<rparr>),
      slider_raw_factor =
        (\<lambda>s event. example_moved (factor s)
                      (real_of_int (fst (xy event) - last_cursor s) / 300)),
      slider_status_string = (\<lambda>s. ''Blend''),
      userdef_event_type = (\<lambda>t. t)\<rparr>"

definition example_action :: bAction where
  "example_action = \<lparr>groups = [''L_arm''], curves = [(''L_arm'', [1])]\<rparr>"

definition example_pose :: bPose where
  "example_pose =
     \<lparr>chanbase = [\<lparr>name = ''L_arm'', xform = [0, 0, 0], selected = False\<rparr>,
                  \<lparr>name = ''R_arm'', xform = [1, 0, 0], selected = False\<rparr>],
      flag = 0\<rparr>"

definition example_world :: world where
  "example_world =
     \<lparr>pose_object = Some \<lparr>pose = Some example_pose, data = Some Armature\<rparr>,
      asset_local_id = Some 0,
      actions = [Some example_action],
      interface_locked = False,
      can_autokey = True,
      action_is_linked = False,
      trace = [],
      customdata = None,
      prop_blend_factor = FLT 0,
      prop_flipped = False,
      prop_release_confirm = Some False,
      reports = []\<rparr>"

definition example_click :: wmEvent where
  "example_click = \<lparr>type = LEFTMOUSE, val = KM_PRESS, xy = (100, 50)\<rparr>"

definition example_drag :: wmEvent where
  "example_drag = \<lparr>type = MOUSEMOVE, val = KM_NOTHING, xy = (280, 50)\<rparr>"

definition example_key :: "event_type \<Rightarrow> wmEvent" where
  "example_key t = \<lparr>type = t, val = KM_PRESS, xy = (280, 50)\<rparr>"

definition example_backup :: PoseBackup where
  "example_backup = \<lparr>is_bone_selection_relevant = False, backups = [(''L_arm'', [0, 0, 0])]\<rparr>"

definition example_opened_pbd :: PoseBlendData where
  "example_opened_pbd =
     \<lparr>state = POSE_BLEND_BLENDING, needs_redraw = False, use_release_confirm = False,
      init_event_type = EVENT_NONE, temp_id_consumer = True, blend_factor = FLT 0,
      pose_backup = Some example_backup, ob = Some POSE_OBJECT, act = Some 0,
      free_action = False,
      slider = Some \<lparr>factor = FLT 0, allow_overshoot = False, last_cursor = 100\<rparr>\<rparr>"

definition example_opened :: world where
  "example_opened =
     example_world\<lparr>
       pose_object := Some \<lparr>pose = Some (example_pose\<lparr>flag := 2\<rparr>), data = Some Armature\<rparr>,
       trace := [WM_cursor_modal_set, DEG_id_tag_update, WM_event_add_notifier_pose,
                 WM_event_add_modal_handler],
       customdata := Some example_opened_pbd\<rparr>"

definition example_blended :: bPose where
  "example_blended =
     \<lparr>chanbase = [\<lparr>name = ''L_arm'', xform = [3 / 5, 3 / 5, 3 / 5], selected = False\<rparr>,
                  \<lparr>name = ''R_arm'', xform = [1, 0, 0], selected = False\<rparr>],
      flag = 2\<rparr>"

definition example_pbd :: PoseBlendData where
  "example_pbd =
     example_opened_pbd\<lparr>blend_factor := FLT (3 / 5),
       slider := Some \<lparr>factor = FLT (3 / 5), allow_overshoot = False, last_cursor = 280\<rparr>\<rparr>"

definition example_session :: world where
  "example_session =
     example_opened\<lparr>
       pose_object := Some \<lparr>pose = Some example_blended, data = Some Armature\<rparr>,
       trace := trace example_opened @
         [ED_workspace_status_text
            (Some ''[F] - Flip pose | [Tab] - Show original pose | Blend''),
          DEG_id_tag_update, WM_event_add_notifier_pose],
       customdata := Some example_pbd\<rparr>"

text \<open>The same session with its state set to \<open>st\<close>.\<close>

definition example_in_state :: "ePoseBlendState \<Rightarrow> world" where
  "example_in_state st = example_session\<lparr>customdata := Some (example_pbd\<lparr>state := st\<rparr>)\<rparr>"

text \<open>The example session, marked as needing a redraw.\<close>

definition example_dirty :: world where
  "example_dirty = example_session\<lparr>customdata := Some (example_pbd\<lparr>needs_redraw := True\<rparr>)\<rparr>"

text \<open>
  The example session with a slider that is allowed to overshoot, and a pointer motion of 300
  pixels that takes its reading to 8 / 5.
\<close>

definition example_overshoot :: world where
  "example_overshoot =
     example_session\<lparr>customdata := Some (example_pbd\<lparr>slider :=
       Some \<lparr>factor = FLT (3 / 5), allow_overshoot = True, last_cursor = 280\<rparr>\<rparr>)\<rparr>"

definition example_far_drag :: wmEvent where
  "example_far_drag = \<lparr>type = MOUSEMOVE, val = KM_NOTHING, xy = (580, 50)\<rparr>"




section \<open>Properties\<close>

lemmas example_defs = example_amount_def example_moved_def example_kernel_def
  example_action_def example_pose_def example_world_def
  example_click_def example_drag_def example_key_def example_backup_def example_opened_pbd_def
  example_opened_def example_blended_def example_pbd_def example_session_def example_in_state_def

lemmas model_defs = poselib_blend_invoke_def poselib_blend_init_data_def ob_not_posable_def
  get_poselib_object_def calloc_PoseBlendData_def poselib_blend_init_get_action_def
  poselib_backup_posecopy_def ob_pose_def id_deref_def set_ob_pose_def
  BKE_pose_backup_create_selected_bones_def BKE_pose_channel_find_name_def
  BKE_pose_backup_restore_def poselib_blend_apply_def ED_slider_create_def ED_slider_init_def
  ED_slider_factor_set_def ED_slider_allow_overshoot_set_def ED_slider_modal_def
  ED_slider_factor_get_def POSE_LOCKED_def POSE_DO_UNLOCK_def List.map_filter_def
  poselib_blend_modal_def poselib_blend_handle_event_def poselib_blend_set_factor_def
  CLAMPIS_def flip_pose_def poselib_blend_flip_pose_def BKE_id_copy_ex_def BKE_id_free_def
  poselib_blend_cleanup_def poselib_blend_free_def poselib_blend_exit_def
  poselib_blend_cancel_def poselib_blend_exec_def poselib_keytag_pose_def
  BKE_pose_backup_is_selection_relevant_def poselib_tempload_exit_def
  float_gt_def slider_clamp_def

subsection \<open>The clamp\<close>

lemma clamp_unit: "unit_interval f \<Longrightarrow> CLAMPIS f (FLT 0) (FLT 1) = f"
  by (cases f) (simp_all add: CLAMPIS_def float_gt_def unit_interval_def)

lemma clamp_range: "f \<noteq> NAN \<Longrightarrow> unit_interval (CLAMPIS f (FLT 0) (FLT 1))"
  by (cases f) (simp_all add: CLAMPIS_def float_gt_def unit_interval_def)

lemma clamp_below: "float_lt f (FLT 0) \<Longrightarrow> CLAMPIS f (FLT 0) (FLT 1) = FLT 0"
  by (simp add: CLAMPIS_def)

lemma clamp_above: "float_gt f (FLT 1) \<Longrightarrow> CLAMPIS f (FLT 0) (FLT 1) = FLT 1"
  by (cases f) (simp_all add: CLAMPIS_def float_gt_def)

lemma clamp_nan: "CLAMPIS NAN (FLT 0) (FLT 1) = NAN"
  by (simp add: CLAMPIS_def float_gt_def)

subsection \<open>The example runs\<close>


lemma example_modal_drag:
  "poselib_blend_modal example_kernel example_opened example_drag =
     Some (OPERATOR_RUNNING_MODAL, example_session)"
  by (simp add: model_defs example_defs)

lemma example_is_session:
  "session (example_in_state st) (example_pbd\<lparr>state := st\<rparr>) example_blended example_backup
     example_action"
  by (simp add: session_def model_defs example_defs)

subsection \<open>Reading and writing the world\<close>

lemma ob_pose_set_ob_pose:
  "ob_pose w p = Some po \<Longrightarrow> ob_pose (set_ob_pose w po') p = Some po'"
  by (auto simp: ob_pose_def set_ob_pose_def split: Option.bind_splits)

lemma set_ob_pose_twice [simp]: "set_ob_pose (set_ob_pose w po) po' = set_ob_pose w po'"
  by (cases "pose_object w") (simp_all add: set_ob_pose_def)

lemma set_ob_pose_fields [simp]:
  "customdata (set_ob_pose w po) = customdata w"
  "actions (set_ob_pose w po) = actions w"
  "trace (set_ob_pose w po) = trace w"
  "reports (set_ob_pose w po) = reports w"
  "interface_locked (set_ob_pose w po) = interface_locked w"
  "prop_blend_factor (set_ob_pose w po) = prop_blend_factor w"
  "can_autokey (set_ob_pose w po) = can_autokey w"
  "action_is_linked (set_ob_pose w po) = action_is_linked w"
  by (simp_all add: set_ob_pose_def)

lemma ob_pose_upd [simp]:
  "ob_pose (w\<lparr>trace := t\<rparr>) p = ob_pose w p"
  "ob_pose (w\<lparr>customdata := c\<rparr>) p = ob_pose w p"
  "ob_pose (w\<lparr>reports := r\<rparr>) p = ob_pose w p"
  "ob_pose (w\<lparr>actions := acts\<rparr>) p = ob_pose w p"
  "ob_pose (w\<lparr>interface_locked := l\<rparr>) p = ob_pose w p"
  "ob_pose (w\<lparr>prop_blend_factor := f\<rparr>) p = ob_pose w p"
  by (simp_all add: ob_pose_def)

lemma id_deref_upd [simp]:
  "id_deref (w\<lparr>trace := t\<rparr>) p = id_deref w p"
  "id_deref (w\<lparr>customdata := c\<rparr>) p = id_deref w p"
  "id_deref (w\<lparr>reports := r\<rparr>) p = id_deref w p"
  "id_deref (w\<lparr>interface_locked := l\<rparr>) p = id_deref w p"
  "id_deref (w\<lparr>prop_blend_factor := f\<rparr>) p = id_deref w p"
  "id_deref (set_ob_pose w po) p = id_deref w p"
  by (cases p; simp add: id_deref_def)+

lemma set_ob_pose_upd [simp]:
  "set_ob_pose (w\<lparr>trace := t\<rparr>) po = (set_ob_pose w po)\<lparr>trace := t\<rparr>"
  "set_ob_pose (w\<lparr>customdata := c\<rparr>) po = (set_ob_pose w po)\<lparr>customdata := c\<rparr>"
  "set_ob_pose (w\<lparr>reports := r\<rparr>) po = (set_ob_pose w po)\<lparr>reports := r\<rparr>"
  "set_ob_pose (w\<lparr>actions := acts\<rparr>) po = (set_ob_pose w po)\<lparr>actions := acts\<rparr>"
  "set_ob_pose (w\<lparr>interface_locked := l\<rparr>) po = (set_ob_pose w po)\<lparr>interface_locked := l\<rparr>"
  "set_ob_pose (w\<lparr>prop_blend_factor := f\<rparr>) po = (set_ob_pose w po)\<lparr>prop_blend_factor := f\<rparr>"
  by (simp_all add: set_ob_pose_def)

lemma rig_pose_ob_pose: "ob_pose w p = Some po \<Longrightarrow> rig_pose w = Some po"
  by (auto simp: rig_pose_def ob_pose_def split: Option.bind_splits)

lemma rig_pose_set_ob_pose:
  "ob_pose w p = Some po \<Longrightarrow> rig_pose (set_ob_pose w po') = Some po'"
  by (auto simp: rig_pose_def ob_pose_def set_ob_pose_def split: Option.bind_splits)

lemma rig_pose_upd [simp]:
  "rig_pose (w\<lparr>trace := t\<rparr>) = rig_pose w"
  "rig_pose (w\<lparr>customdata := c\<rparr>) = rig_pose w"
  "rig_pose (w\<lparr>reports := r\<rparr>) = rig_pose w"
  "rig_pose (w\<lparr>actions := acts\<rparr>) = rig_pose w"
  "rig_pose (w\<lparr>interface_locked := l\<rparr>) = rig_pose w"
  "rig_pose (w\<lparr>prop_blend_factor := f\<rparr>) = rig_pose w"
  by (simp_all add: rig_pose_def)

lemma restore_flag [simp]:
  "BKE_pose_backup_restore b (po\<lparr>flag := f\<rparr>) = (BKE_pose_backup_restore b po)\<lparr>flag := f\<rparr>"
  "flag (BKE_pose_backup_restore b po) = flag po"
  by (simp_all add: BKE_pose_backup_restore_def)

lemma slider_same: "slider pbd = Some s \<Longrightarrow> pbd\<lparr>slider := Some s\<rparr> = pbd"
  by (cases pbd) simp

lemma session_ob_pose: "session w pbd po b a \<Longrightarrow> rig_pose w = Some po"
  by (auto simp: session_def rig_pose_ob_pose)

subsection \<open>The backup\<close>

lemma restore_writes_backup:
  assumes "pchan \<in> set (chanbase (BKE_pose_backup_restore b po))"
    and "map_of (backups b) (name pchan) = Some t"
  shows "xform pchan = t"
  using assms by (auto simp: BKE_pose_backup_restore_def split: option.splits)

lemma restore_keeps_others:
  assumes "pchan \<in> set (chanbase po)" and "map_of (backups b) (name pchan) = None"
  shows "pchan \<in> set (chanbase (BKE_pose_backup_restore b po))"
  using assms by (force simp: BKE_pose_backup_restore_def)

subsection \<open>The teardown\<close>

lemma keytag_ok:
  assumes "session w pbd po b a"
  shows "\<exists>ks. poselib_keytag_pose w pbd = Some (w\<lparr>trace := trace w @ ks\<rparr>)"
proof -
  from assms have ob: "ob pbd \<noteq> None" "pose_object w \<noteq> None"
    by (auto simp: session_def ob_pose_def split: Option.bind_splits)
  have triv: "w = w\<lparr>trace := trace w @ []\<rparr>" by simp
  show ?thesis
  proof (cases "\<not> can_autokey w \<or> action_is_linked w")
    case True
    with ob assms have "poselib_keytag_pose w pbd = Some w"
      by (auto simp: poselib_keytag_pose_def)
    with triv show ?thesis by metis
  next
    case False
    with ob assms show ?thesis
      by (auto simp: poselib_keytag_pose_def session_def Let_def)
  qed
qed

lemma cleanup_cancel:
  assumes "session w pbd po b a" and "state pbd = POSE_BLEND_CANCEL"
  shows "poselib_blend_cleanup w =
     Some ((set_ob_pose w ((BKE_pose_backup_restore b po)\<lparr>flag := flag po OR POSE_DO_UNLOCK\<rparr>))
           \<lparr>trace := trace w @ cleanup_trace pbd @
              [DEG_id_tag_update, WM_event_add_notifier_pose, WM_event_add_mousemove]\<rparr>)"
  using assms
  by (auto simp add: session_def poselib_blend_cleanup_def cleanup_trace_def ob_pose_set_ob_pose
        Let_def)

lemma cleanup_nonterminal:
  assumes "session w pbd po b a"
    and "state pbd = POSE_BLEND_INIT \<or> state pbd = POSE_BLEND_BLENDING \<or>
         state pbd = POSE_BLEND_ORIGINAL"
  shows "poselib_blend_cleanup w =
     Some ((set_ob_pose w ((BKE_pose_backup_restore b po)\<lparr>flag := flag po OR POSE_DO_UNLOCK\<rparr>))
           \<lparr>reports := reports w @ [''Internal pose library error, canceling operator''],
            trace := trace w @ cleanup_trace pbd @
              [DEG_id_tag_update, WM_event_add_notifier_pose, WM_event_add_mousemove]\<rparr>)"
  using assms
  by (auto simp add: session_def poselib_blend_cleanup_def cleanup_trace_def ob_pose_set_ob_pose
        Let_def)

lemma cleanup_confirm:
  assumes "session w pbd po b a" and "state pbd = POSE_BLEND_CONFIRM"
  shows "\<exists>ks. poselib_blend_cleanup w =
     Some ((set_ob_pose w (po\<lparr>flag := flag po OR POSE_DO_UNLOCK\<rparr>))
           \<lparr>prop_blend_factor := blend_factor pbd,
            trace := trace w @ cleanup_trace pbd @ ks @
              [DEG_id_tag_update, WM_event_add_notifier_pose, WM_event_add_mousemove]\<rparr>)"
proof -
  let ?po = "po\<lparr>flag := flag po OR POSE_DO_UNLOCK\<rparr>"
  let ?w1 = "set_ob_pose (w\<lparr>trace := trace w @ cleanup_trace pbd\<rparr>) ?po"
  from assms have "session ?w1 pbd ?po b a"
    by (simp add: session_def ob_pose_set_ob_pose)
  from keytag_ok [OF this] obtain ks where
    ks: "poselib_keytag_pose ?w1 pbd = Some (?w1\<lparr>trace := trace ?w1 @ ks\<rparr>)" by blast
  from assms ks show ?thesis
    by (auto simp add: session_def poselib_blend_cleanup_def cleanup_trace_def Let_def
          intro!: exI [of _ ks])
qed

lemma free_ok:
  assumes "customdata w = Some pbd" and "id_deref w (act pbd) = Some a"
  shows "\<exists>acts. poselib_blend_free w = Some (w\<lparr>customdata := None, actions := acts\<rparr>)"
proof -
  from assms obtain p where "act pbd = Some p" by (cases "act pbd") (auto simp: id_deref_def)
  with assms have "poselib_blend_free w =
     Some (w\<lparr>customdata := None,
             actions := (if free_action pbd then (actions w)[p := None] else actions w)\<rparr>)"
    by (simp add: poselib_blend_free_def BKE_id_free_def Let_def)
  then show ?thesis by blast
qed

lemma exit_cancel:
  assumes "session w pbd po b a" and "state pbd = POSE_BLEND_CANCEL"
  shows "\<exists>w'. poselib_blend_exit w = Some (OPERATOR_CANCELLED, w') \<and> backup_restored b po w'"
proof -
  let ?w1 = "(set_ob_pose w ((BKE_pose_backup_restore b po)\<lparr>flag := flag po OR POSE_DO_UNLOCK\<rparr>))
           \<lparr>trace := trace w @ cleanup_trace pbd @
              [DEG_id_tag_update, WM_event_add_notifier_pose, WM_event_add_mousemove]\<rparr>"
  have c: "poselib_blend_cleanup w = Some ?w1" by (rule cleanup_cancel [OF assms])
  from assms have "customdata ?w1 = Some pbd" "id_deref ?w1 (act pbd) = Some a"
    by (simp_all add: session_def)
  from free_ok [OF this] obtain acts where
    f: "poselib_blend_free ?w1 = Some (?w1\<lparr>customdata := None, actions := acts\<rparr>)" by blast
  from assms have "ob_pose w (ob pbd) = Some po" by (simp add: session_def)
  then have "rig_pose ?w1 = Some ((BKE_pose_backup_restore b po)\<lparr>flag := flag po OR POSE_DO_UNLOCK\<rparr>)"
    by (simp add: rig_pose_set_ob_pose)
  with assms c f show ?thesis
    by (simp add: poselib_blend_exit_def session_def backup_restored_def Let_def)
qed

lemma session_state:
  "session w pbd po b a \<Longrightarrow>
   session (w\<lparr>customdata := Some (pbd\<lparr>state := st\<rparr>)\<rparr>) (pbd\<lparr>state := st\<rparr>) po b a"
  by (simp add: session_def)

lemma cancel_ok:
  assumes "session w pbd po b a"
  shows "\<exists>w'. poselib_blend_cancel w = Some w' \<and> backup_restored b po w'"
proof -
  let ?w1 = "w\<lparr>customdata := Some (pbd\<lparr>state := POSE_BLEND_CANCEL\<rparr>)\<rparr>"
  have "session ?w1 (pbd\<lparr>state := POSE_BLEND_CANCEL\<rparr>) po b a"
    by (rule session_state [OF assms])
  from exit_cancel [OF this] obtain w' where
    "poselib_blend_exit ?w1 = Some (OPERATOR_CANCELLED, w')" "backup_restored b po w'"
    by auto
  with assms show ?thesis
    by (simp add: poselib_blend_cancel_def session_def)
qed

text \<open>What the handler makes of a key press that only sets the state.\<close>

lemma handle_event_cancel_key:
  assumes "customdata w = Some pbd" and "slider pbd = Some s"
    and "type event = EVT_ESCKEY \<or> type event = RIGHTMOUSE" and "val event = KM_PRESS"
  shows "poselib_blend_handle_event K w event =
     Some (OPERATOR_RUNNING_MODAL,
           w\<lparr>customdata := Some ((poselib_blend_set_factor pbd (ED_slider_factor_get s))
                                   \<lparr>state := POSE_BLEND_CANCEL\<rparr>)\<rparr>)"
  using assms(3)
  by (elim disjE; simp add: assms(1,2,4) poselib_blend_handle_event_def ED_slider_modal_def
        slider_same poselib_blend_set_factor_def)

lemma session_set_factor:
  "session w pbd po b a \<Longrightarrow>
   session (w\<lparr>customdata := Some ((poselib_blend_set_factor pbd f)\<lparr>state := st\<rparr>)\<rparr>)
     ((poselib_blend_set_factor pbd f)\<lparr>state := st\<rparr>) po b a"
  by (simp add: session_def poselib_blend_set_factor_def)

lemma modal_cancel_key:
  assumes "session w pbd po b a" and "slider pbd \<noteq> None"
    and "type event = EVT_ESCKEY \<or> type event = RIGHTMOUSE" and "val event = KM_PRESS"
  shows "\<exists>w'. poselib_blend_modal K w event = Some (OPERATOR_CANCELLED, w') \<and>
              backup_restored b po w'"
proof -
  from assms(2) obtain s where s: "slider pbd = Some s" by auto
  let ?pbd = "(poselib_blend_set_factor pbd (ED_slider_factor_get s))\<lparr>state := POSE_BLEND_CANCEL\<rparr>"
  let ?w1 = "w\<lparr>customdata := Some ?pbd\<rparr>"
  from assms(1) have cd: "customdata w = Some pbd" by (simp add: session_def)
  have h: "poselib_blend_handle_event K w event = Some (OPERATOR_RUNNING_MODAL, ?w1)"
    by (rule handle_event_cancel_key [OF cd s assms(3,4)])
  have "session ?w1 ?pbd po b a" by (rule session_set_factor [OF assms(1)])
  moreover have "state ?pbd = POSE_BLEND_CANCEL" by simp
  ultimately obtain w' where
    "poselib_blend_exit ?w1 = Some (OPERATOR_CANCELLED, w')" "backup_restored b po w'"
    using exit_cancel by blast
  with h show ?thesis
    by (simp add: poselib_blend_modal_def)
qed

subsection \<open>Cancelling\<close>

text \<open>
  C2. When the session is in the state \<open>POSE_BLEND_CANCEL\<close>, \<^verbatim>\<open>poselib_blend_exit\<close> returns
  \<open>OPERATOR_CANCELLED\<close> and leaves the backup restored on the rig, whatever the pose held
  before; so does the cancel callback of the host from any state, and so does the modal handler
  on a press of Escape or of the right mouse button. Every bone that the backup records ends with
  its recorded transform.
\<close>

theorem cancel_restores_backup:
  assumes "session w pbd po b a"
  shows "(state pbd = POSE_BLEND_CANCEL \<longrightarrow>
            (\<exists>w'. poselib_blend_exit w = Some (OPERATOR_CANCELLED, w') \<and>
                   backup_restored b po w')) \<and>
         (\<exists>w'. poselib_blend_cancel w = Some w' \<and> backup_restored b po w') \<and>
         (slider pbd \<noteq> None \<and> (type event = EVT_ESCKEY \<or> type event = RIGHTMOUSE) \<and>
          val event = KM_PRESS \<longrightarrow>
            (\<exists>w'. poselib_blend_modal K w event = Some (OPERATOR_CANCELLED, w') \<and>
                   backup_restored b po w')) \<and>
         (\<forall>pchan \<in> set (chanbase (BKE_pose_backup_restore b po)).
            \<forall>t. map_of (backups b) (name pchan) = Some t \<longrightarrow> xform pchan = t)"
proof (intro conjI impI ballI allI)
  assume "state pbd = POSE_BLEND_CANCEL"
  then show "\<exists>w'. poselib_blend_exit w = Some (OPERATOR_CANCELLED, w') \<and> backup_restored b po w'"
    by (rule exit_cancel [OF assms])
next
  show "\<exists>w'. poselib_blend_cancel w = Some w' \<and> backup_restored b po w'"
    by (rule cancel_ok [OF assms])
next
  assume k: "slider pbd \<noteq> None \<and> (type event = EVT_ESCKEY \<or> type event = RIGHTMOUSE) \<and>
    val event = KM_PRESS"
  show "\<exists>w'. poselib_blend_modal K w event = Some (OPERATOR_CANCELLED, w') \<and>
    backup_restored b po w'"
    by (rule modal_cancel_key [OF assms]) (simp_all add: k)
next
  fix pchan t
  assume "pchan \<in> set (chanbase (BKE_pose_backup_restore b po))"
    and "map_of (backups b) (name pchan) = Some t"
  then show "xform pchan = t" by (rule restore_writes_backup)
qed

theorem cancel_restores_backup_witness:
  "(\<exists>w'. poselib_blend_exit (example_in_state POSE_BLEND_CANCEL) = Some (OPERATOR_CANCELLED, w') \<and>
          rig_pose w' = Some (example_pose\<lparr>flag := 6\<rparr>)) \<and>
   (\<exists>w'. poselib_blend_cancel example_session = Some w' \<and>
          rig_pose w' = Some (example_pose\<lparr>flag := 6\<rparr>)) \<and>
   (\<exists>w'. poselib_blend_modal example_kernel example_session (example_key EVT_ESCKEY) =
            Some (OPERATOR_CANCELLED, w') \<and>
          rig_pose w' = Some (example_pose\<lparr>flag := 6\<rparr>))"
proof -
  have r: "(BKE_pose_backup_restore example_backup example_blended)
             \<lparr>flag := flag example_blended OR POSE_DO_UNLOCK\<rparr> = example_pose\<lparr>flag := 6\<rparr>"
    by (simp add: BKE_pose_backup_restore_def POSE_DO_UNLOCK_def example_defs)
  have s: "example_in_state POSE_BLEND_BLENDING = example_session"
    by (simp add: example_defs)
  have k: "slider (example_pbd\<lparr>state := POSE_BLEND_BLENDING\<rparr>) \<noteq> None \<and>
      (type (example_key EVT_ESCKEY) = EVT_ESCKEY \<or> type (example_key EVT_ESCKEY) = RIGHTMOUSE) \<and>
      val (example_key EVT_ESCKEY) = KM_PRESS"
    by (simp add: example_defs)
  note c = cancel_restores_backup [OF example_is_session [of POSE_BLEND_CANCEL],
        of "example_key EVT_ESCKEY" example_kernel]
  note t = cancel_restores_backup [OF example_is_session [of POSE_BLEND_BLENDING],
        of "example_key EVT_ESCKEY" example_kernel]
  have "\<exists>w'. poselib_blend_exit (example_in_state POSE_BLEND_CANCEL) =
          Some (OPERATOR_CANCELLED, w') \<and> backup_restored example_backup example_blended w'"
    using c [THEN conjunct1] by simp
  moreover have "\<exists>w'. poselib_blend_cancel example_session = Some w' \<and>
          backup_restored example_backup example_blended w'"
    using t [THEN conjunct2, THEN conjunct1] by (simp add: s)
  moreover have "\<exists>w'. poselib_blend_modal example_kernel example_session
          (example_key EVT_ESCKEY) = Some (OPERATOR_CANCELLED, w') \<and>
          backup_restored example_backup example_blended w'"
    using t [THEN conjunct2, THEN conjunct2, THEN conjunct1, rule_format, OF k] by (simp add: s)
  ultimately show ?thesis
    unfolding backup_restored_def r by blast
qed

lemma session_rig_set:
  "session w pbd po b a \<Longrightarrow> rig_pose (set_ob_pose w po') = Some po'"
  by (auto simp: session_def rig_pose_set_ob_pose)

lemma exit_confirm:
  assumes "session w pbd po b a" and "state pbd = POSE_BLEND_CONFIRM"
  shows "\<exists>w'. poselib_blend_exit w = Some (OPERATOR_FINISHED, w') \<and>
              prop_blend_factor w' = blend_factor pbd \<and>
              rig_pose w' = Some (po\<lparr>flag := flag po OR POSE_DO_UNLOCK\<rparr>) \<and>
              customdata w' = None"
proof -
  from cleanup_confirm [OF assms] obtain ks where
    c: "poselib_blend_cleanup w =
     Some ((set_ob_pose w (po\<lparr>flag := flag po OR POSE_DO_UNLOCK\<rparr>))
           \<lparr>prop_blend_factor := blend_factor pbd,
            trace := trace w @ cleanup_trace pbd @ ks @
              [DEG_id_tag_update, WM_event_add_notifier_pose, WM_event_add_mousemove]\<rparr>)"
    (is "_ = Some ?w1") by blast
  from assms have "customdata ?w1 = Some pbd" "id_deref ?w1 (act pbd) = Some a"
    by (simp_all add: session_def)
  from free_ok [OF this] obtain acts where
    f: "poselib_blend_free ?w1 = Some (?w1\<lparr>customdata := None, actions := acts\<rparr>)" by blast
  have "rig_pose ?w1 = Some (po\<lparr>flag := flag po OR POSE_DO_UNLOCK\<rparr>)"
    by (simp add: session_rig_set [OF assms(1)])
  with assms c f show ?thesis
    by (simp add: poselib_blend_exit_def session_def Let_def)
qed

lemma exit_cancel_prop:
  assumes "session w pbd po b a" and "state pbd = POSE_BLEND_CANCEL"
  shows "\<exists>w'. poselib_blend_exit w = Some (OPERATOR_CANCELLED, w') \<and>
              prop_blend_factor w' = prop_blend_factor w"
proof -
  let ?w1 = "(set_ob_pose w ((BKE_pose_backup_restore b po)\<lparr>flag := flag po OR POSE_DO_UNLOCK\<rparr>))
           \<lparr>trace := trace w @ cleanup_trace pbd @
              [DEG_id_tag_update, WM_event_add_notifier_pose, WM_event_add_mousemove]\<rparr>"
  have c: "poselib_blend_cleanup w = Some ?w1" by (rule cleanup_cancel [OF assms])
  from assms have "customdata ?w1 = Some pbd" "id_deref ?w1 (act pbd) = Some a"
    by (simp_all add: session_def)
  from free_ok [OF this] obtain acts where
    f: "poselib_blend_free ?w1 = Some (?w1\<lparr>customdata := None, actions := acts\<rparr>)" by blast
  with assms c f show ?thesis
    by (simp add: poselib_blend_exit_def session_def Let_def)
qed

lemma handle_event_confirm_key:
  assumes "customdata w = Some pbd" and "slider pbd = Some s"
    and "type event = LEFTMOUSE \<or> type event = EVT_RETKEY \<or> type event = EVT_PADENTER \<or>
         type event = EVT_SPACEKEY"
    and "val event = KM_PRESS"
  shows "poselib_blend_handle_event K w event =
     Some (OPERATOR_RUNNING_MODAL,
           w\<lparr>customdata := Some ((poselib_blend_set_factor pbd (ED_slider_factor_get s))
                                   \<lparr>state := POSE_BLEND_CONFIRM\<rparr>)\<rparr>)"
  using assms(3)
  by (elim disjE; simp add: assms(1,2,4) poselib_blend_handle_event_def ED_slider_modal_def
        slider_same poselib_blend_set_factor_def)

lemma modal_confirm_key:
  assumes "session w pbd po b a" and "slider pbd = Some s"
    and "type event = LEFTMOUSE \<or> type event = EVT_RETKEY \<or> type event = EVT_PADENTER \<or>
         type event = EVT_SPACEKEY"
    and "val event = KM_PRESS"
  shows "\<exists>w'. poselib_blend_modal K w event = Some (OPERATOR_FINISHED, w') \<and>
              prop_blend_factor w' = CLAMPIS (ED_slider_factor_get s) (FLT 0) (FLT 1)"
proof -
  let ?pbd = "(poselib_blend_set_factor pbd (ED_slider_factor_get s))\<lparr>state := POSE_BLEND_CONFIRM\<rparr>"
  let ?w1 = "w\<lparr>customdata := Some ?pbd\<rparr>"
  from assms(1) have cd: "customdata w = Some pbd" by (simp add: session_def)
  have h: "poselib_blend_handle_event K w event = Some (OPERATOR_RUNNING_MODAL, ?w1)"
    by (rule handle_event_confirm_key [OF cd assms(2,3,4)])
  have "session ?w1 ?pbd po b a" by (rule session_set_factor [OF assms(1)])
  moreover have "state ?pbd = POSE_BLEND_CONFIRM" by simp
  ultimately obtain w' where
    "poselib_blend_exit ?w1 = Some (OPERATOR_FINISHED, w')"
    "prop_blend_factor w' = blend_factor ?pbd"
    using exit_confirm by blast
  with h show ?thesis
    by (simp add: poselib_blend_modal_def poselib_blend_set_factor_def)
qed

subsection \<open>Confirming\<close>

text \<open>
  C7. When the session is in the state \<open>POSE_BLEND_CONFIRM\<close>, the teardown stores the factor of
  the session in the "blend\_factor" property of the operator; in the state \<open>POSE_BLEND_CANCEL\<close>
  it leaves the property as it was. A confirming key press in the modal handler ends the operator
  with the property holding the clamped reading of the slider, a value in [0, 1] unless the
  reading is NaN.
\<close>

theorem confirm_reports_factor:
  assumes "session w pbd po b a"
  shows "(state pbd = POSE_BLEND_CONFIRM \<longrightarrow>
            (\<exists>w'. poselib_blend_exit w = Some (OPERATOR_FINISHED, w') \<and>
                   prop_blend_factor w' = blend_factor pbd)) \<and>
         (state pbd = POSE_BLEND_CANCEL \<longrightarrow>
            (\<exists>w'. poselib_blend_exit w = Some (OPERATOR_CANCELLED, w') \<and>
                   prop_blend_factor w' = prop_blend_factor w)) \<and>
         (slider pbd = Some s \<and> val event = KM_PRESS \<and>
          (type event = LEFTMOUSE \<or> type event = EVT_RETKEY \<or> type event = EVT_PADENTER \<or>
           type event = EVT_SPACEKEY) \<longrightarrow>
            (\<exists>w'. poselib_blend_modal K w event = Some (OPERATOR_FINISHED, w') \<and>
                   prop_blend_factor w' = CLAMPIS (ED_slider_factor_get s) (FLT 0) (FLT 1) \<and>
                   (ED_slider_factor_get s \<noteq> NAN \<longrightarrow> unit_interval (prop_blend_factor w'))))"
proof (intro conjI impI)
  assume "state pbd = POSE_BLEND_CONFIRM"
  from exit_confirm [OF assms this]
  show "\<exists>w'. poselib_blend_exit w = Some (OPERATOR_FINISHED, w') \<and>
    prop_blend_factor w' = blend_factor pbd" by blast
next
  assume "state pbd = POSE_BLEND_CANCEL"
  then show "\<exists>w'. poselib_blend_exit w = Some (OPERATOR_CANCELLED, w') \<and>
    prop_blend_factor w' = prop_blend_factor w" by (rule exit_cancel_prop [OF assms])
next
  assume k: "slider pbd = Some s \<and> val event = KM_PRESS \<and>
          (type event = LEFTMOUSE \<or> type event = EVT_RETKEY \<or> type event = EVT_PADENTER \<or>
           type event = EVT_SPACEKEY)"
  then obtain w' where "poselib_blend_modal K w event = Some (OPERATOR_FINISHED, w')"
    "prop_blend_factor w' = CLAMPIS (ED_slider_factor_get s) (FLT 0) (FLT 1)"
    using modal_confirm_key [OF assms, of s event K] by blast
  then show "\<exists>w'. poselib_blend_modal K w event = Some (OPERATOR_FINISHED, w') \<and>
                   prop_blend_factor w' = CLAMPIS (ED_slider_factor_get s) (FLT 0) (FLT 1) \<and>
                   (ED_slider_factor_get s \<noteq> NAN \<longrightarrow> unit_interval (prop_blend_factor w'))"
    by (simp add: clamp_range)
qed

theorem confirm_reports_factor_witness:
  "(\<exists>w'. poselib_blend_exit (example_in_state POSE_BLEND_CONFIRM) =
            Some (OPERATOR_FINISHED, w') \<and> prop_blend_factor w' = FLT (3 / 5)) \<and>
   (\<exists>w'. poselib_blend_exit (example_in_state POSE_BLEND_CANCEL) =
            Some (OPERATOR_CANCELLED, w') \<and> prop_blend_factor w' = FLT 0) \<and>
   (\<exists>w'. poselib_blend_modal example_kernel example_session (example_key LEFTMOUSE) =
            Some (OPERATOR_FINISHED, w') \<and> prop_blend_factor w' = FLT (3 / 5))"
proof -
  let ?s = "\<lparr>factor = FLT (3 / 5), allow_overshoot = False, last_cursor = 280\<rparr>"
  have s: "example_in_state POSE_BLEND_BLENDING = example_session"
    by (simp add: example_defs)
  have k: "slider (example_pbd\<lparr>state := POSE_BLEND_BLENDING\<rparr>) = Some ?s \<and>
      val (example_key LEFTMOUSE) = KM_PRESS \<and>
      (type (example_key LEFTMOUSE) = LEFTMOUSE \<or> type (example_key LEFTMOUSE) = EVT_RETKEY \<or>
       type (example_key LEFTMOUSE) = EVT_PADENTER \<or>
       type (example_key LEFTMOUSE) = EVT_SPACEKEY)"
    by (simp add: example_defs)
  have v: "blend_factor example_pbd = FLT (3 / 5)"
    "prop_blend_factor (example_in_state st) = FLT 0"
    "CLAMPIS (ED_slider_factor_get ?s) (FLT 0) (FLT 1) = FLT (3 / 5)" for st
    by (simp_all add: example_defs CLAMPIS_def float_gt_def ED_slider_factor_get_def)
  have "\<exists>w'. poselib_blend_exit (example_in_state POSE_BLEND_CONFIRM) =
            Some (OPERATOR_FINISHED, w') \<and> prop_blend_factor w' = FLT (3 / 5)"
    using confirm_reports_factor [OF example_is_session [of POSE_BLEND_CONFIRM], THEN conjunct1]
    by (simp add: v)
  moreover have "\<exists>w'. poselib_blend_exit (example_in_state POSE_BLEND_CANCEL) =
            Some (OPERATOR_CANCELLED, w') \<and> prop_blend_factor w' = FLT 0"
    using confirm_reports_factor [OF example_is_session [of POSE_BLEND_CANCEL],
        THEN conjunct2, THEN conjunct1]
    by (simp add: v)
  moreover have "\<exists>w'. poselib_blend_modal example_kernel example_session (example_key LEFTMOUSE) =
            Some (OPERATOR_FINISHED, w') \<and> prop_blend_factor w' = FLT (3 / 5)"
    using confirm_reports_factor [OF example_is_session [of POSE_BLEND_BLENDING],
        THEN conjunct2, THEN conjunct2, rule_format, OF k, of example_kernel]
    by (auto simp add: v s)
  ultimately show ?thesis by blast
qed

subsection \<open>Teardown from a state that is not terminal\<close>

text \<open>
  C10. When \<^verbatim>\<open>poselib_blend_cleanup\<close> runs on a session in the state \<open>POSE_BLEND_INIT\<close>,
  \<open>POSE_BLEND_BLENDING\<close> or \<open>POSE_BLEND_ORIGINAL\<close>, it reports the internal error and goes on
  as for a cancellation: the backup is restored on the rig, so that every recorded bone has its
  recorded transform, nothing is keyed and the factor property is not written.
\<close>

theorem cleanup_from_live_state:
  assumes "session w pbd po b a"
    and "state pbd = POSE_BLEND_INIT \<or> state pbd = POSE_BLEND_BLENDING \<or>
         state pbd = POSE_BLEND_ORIGINAL"
  shows "\<exists>w'. poselib_blend_cleanup w = Some w' \<and>
           reports w' = reports w @ [''Internal pose library error, canceling operator''] \<and>
           rig_pose w' =
             Some ((BKE_pose_backup_restore b po)\<lparr>flag := flag po OR POSE_DO_UNLOCK\<rparr>) \<and>
           (\<forall>pchan \<in> set (chanbase (BKE_pose_backup_restore b po)).
              \<forall>t. map_of (backups b) (name pchan) = Some t \<longrightarrow> xform pchan = t) \<and>
           prop_blend_factor w' = prop_blend_factor w \<and>
           trace w' = trace w @ cleanup_trace pbd @
             [DEG_id_tag_update, WM_event_add_notifier_pose, WM_event_add_mousemove]"
  using cleanup_nonterminal [OF assms] restore_writes_backup [of _ b po]
  by (auto simp: session_rig_set [OF assms(1)])

theorem cleanup_from_live_state_witness:
  "\<exists>w'. poselib_blend_cleanup example_session = Some w' \<and>
         reports w' = [''Internal pose library error, canceling operator''] \<and>
         rig_pose w' = Some (example_pose\<lparr>flag := 6\<rparr>)"
proof -
  have r: "(BKE_pose_backup_restore example_backup example_blended)
             \<lparr>flag := flag example_blended OR POSE_DO_UNLOCK\<rparr> = example_pose\<lparr>flag := 6\<rparr>"
    by (simp add: BKE_pose_backup_restore_def POSE_DO_UNLOCK_def example_defs)
  have s: "example_in_state POSE_BLEND_BLENDING = example_session" "reports example_session = []"
    by (simp_all add: example_defs)
  have "state (example_pbd\<lparr>state := POSE_BLEND_BLENDING\<rparr>) = POSE_BLEND_INIT \<or>
        state (example_pbd\<lparr>state := POSE_BLEND_BLENDING\<rparr>) = POSE_BLEND_BLENDING \<or>
        state (example_pbd\<lparr>state := POSE_BLEND_BLENDING\<rparr>) = POSE_BLEND_ORIGINAL"
    by simp
  from cleanup_from_live_state [OF example_is_session [of POSE_BLEND_BLENDING] this]
  show ?thesis
    unfolding r s by (auto simp: s)
qed

subsection \<open>Applying\<close>

lemma apply_clean:
  "customdata w = Some pbd \<Longrightarrow> \<not> needs_redraw pbd \<Longrightarrow> poselib_blend_apply K w = Some w"
  by (simp add: poselib_blend_apply_def)

lemma apply_dirty:
  assumes "session w pbd po b a" and "needs_redraw pbd"
  shows "poselib_blend_apply K w =
     Some ((set_ob_pose w (blended_pose K pbd b a po))
           \<lparr>customdata := Some (pbd\<lparr>needs_redraw := False\<rparr>),
            trace := trace w @ [DEG_id_tag_update, WM_event_add_notifier_pose]\<rparr>)"
  using assms
  by (simp add: poselib_blend_apply_def session_def blended_pose_def Let_def)

lemma apply_clears:
  "poselib_blend_apply K w = Some w' \<Longrightarrow>
   \<exists>pbd'. customdata w' = Some pbd' \<and> \<not> needs_redraw pbd'"
  by (auto simp: poselib_blend_apply_def Let_def split: Option.bind_splits if_splits)

lemma apply_twice: 
  "Option.bind (poselib_blend_apply K w) (poselib_blend_apply K) = poselib_blend_apply K w"
proof (cases "poselib_blend_apply K w")
  case None
  then show ?thesis by simp
next
  case (Some w')
  from apply_clears [OF this] obtain pbd' where "customdata w' = Some pbd'" "\<not> needs_redraw pbd'"
    by blast
  then have "poselib_blend_apply K w' = Some w'" by (rule apply_clean)
  with Some show ?thesis by simp
qed

lemma session_apply:
  assumes "session w pbd po b a"
  shows "\<exists>w' po'. poselib_blend_apply K w = Some w' \<and>
           session w' (pbd\<lparr>needs_redraw := False\<rparr>) po' b a \<and> flag po' = flag po"
proof (cases "needs_redraw pbd")
  case False
  then have "pbd\<lparr>needs_redraw := False\<rparr> = pbd" by (cases pbd) simp
  moreover from assms False have "poselib_blend_apply K w = Some w"
    by (simp add: session_def apply_clean)
  ultimately show ?thesis using assms by auto
next
  case True
  from assms have "ob_pose w (ob pbd) = Some po" by (simp add: session_def)
  then have "ob_pose (set_ob_pose w (blended_pose K pbd b a po)) (ob pbd) =
    Some (blended_pose K pbd b a po)" by (rule ob_pose_set_ob_pose)
  moreover have "flag (blended_pose K pbd b a po) = flag po"
    by (simp add: blended_pose_def Let_def)
  ultimately show ?thesis using assms apply_dirty [OF assms True, of K]
    by (simp add: session_def)
qed

text \<open>
  C9. \<^verbatim>\<open>poselib_blend_apply\<close> does nothing when \<open>needs_redraw\<close> is false and clears the
  flag otherwise, so a second call right after the first returns the world of the first: rig,
  emitted tags and session are those of one call. On a session it returns.
\<close>

theorem apply_gated_on_redraw:
  "Option.bind (poselib_blend_apply K w) (poselib_blend_apply K) = poselib_blend_apply K w \<and>
   (\<forall>pbd. customdata w = Some pbd \<and> \<not> needs_redraw pbd \<longrightarrow>
      poselib_blend_apply K w = Some w) \<and>
   (\<forall>w'. poselib_blend_apply K w = Some w' \<longrightarrow>
      (\<exists>pbd'. customdata w' = Some pbd' \<and> \<not> needs_redraw pbd')) \<and>
   (\<forall>pbd po b a. session w pbd po b a \<longrightarrow> (\<exists>w'. poselib_blend_apply K w = Some w'))"
  using apply_twice [of K w] apply_clean [of w _ K] apply_clears [of K w]
    session_apply [of w _ _ _ _ K]
  by blast

theorem apply_gated_on_redraw_witness:
  "\<exists>w'. poselib_blend_apply example_kernel example_dirty = Some w' \<and>
         poselib_blend_apply example_kernel w' = Some w' \<and>
         rig_pose w' = Some example_blended \<and>
         poselib_blend_apply example_kernel example_session = Some example_session"
proof -
  let ?w' = "example_session\<lparr>trace := trace example_session @
      [DEG_id_tag_update, WM_event_add_notifier_pose]\<rparr>"
  have e: "poselib_blend_apply example_kernel example_dirty = Some ?w'"
    by (simp add: example_dirty_def model_defs example_defs)
  have c: "customdata example_session = Some example_pbd \<and> \<not> needs_redraw example_pbd"
    by (simp add: example_defs)
  have r: "rig_pose ?w' = Some example_blended"
    by (simp add: rig_pose_def ob_pose_def example_defs)
  note t = apply_gated_on_redraw [of example_kernel example_dirty]
  note u = apply_gated_on_redraw [of example_kernel example_session]
  from t [THEN conjunct1] e have "poselib_blend_apply example_kernel ?w' = Some ?w'" by simp
  moreover from u [THEN conjunct2, THEN conjunct1, rule_format, OF c]
  have "poselib_blend_apply example_kernel example_session = Some example_session" .
  ultimately show ?thesis using e r by blast
qed

subsection \<open>Flipping\<close>

lemma id_deref_append:
  "id_deref (w\<lparr>actions := actions w @ [x]\<rparr>) (Some (length (actions w))) = x"
  "id_deref w p = Some a \<Longrightarrow> id_deref (w\<lparr>actions := actions w @ [x]\<rparr>) p = Some a"
  "id_deref w (Some (length (actions w))) = None"
  by (auto simp: id_deref_def nth_append split: option.splits if_splits)

lemma flip_pose_ok:
  assumes "id_deref w action = Some a" and "ob_pose w obp = Some po"
  shows "flip_pose K w obp action =
     Some (length (actions w), w\<lparr>actions := actions w @ [Some (action_flip_with_pose K a po)]\<rparr>)"
  using assms by (simp add: flip_pose_def BKE_id_copy_ex_def Let_def)

text \<open>
  C5. \<^verbatim>\<open>flip_pose\<close> returns the address of a new cell that holds the flipped copy of
  the action. The cell was not live before, the input action and every other live action are
  as they were, the interface lock has the value it had on entry, and nothing but the heap of
  actions has changed.
\<close>

theorem flip_pose_copies:
  assumes "id_deref w action = Some a" and "ob_pose w obp = Some po"
  shows "\<exists>action_copy w'. flip_pose K w obp action = Some (action_copy, w') \<and>
           id_deref w (Some action_copy) = None \<and>
           id_deref w' (Some action_copy) = Some (action_flip_with_pose K a po) \<and>
           id_deref w' action = Some a \<and>
           (\<forall>p. id_deref w p \<noteq> None \<longrightarrow> id_deref w' p = id_deref w p) \<and>
           interface_locked w' = interface_locked w \<and>
           w' = w\<lparr>actions := actions w'\<rparr>"
proof -
  let ?w' = "w\<lparr>actions := actions w @ [Some (action_flip_with_pose K a po)]\<rparr>"
  have "flip_pose K w obp action = Some (length (actions w), ?w')"
    by (rule flip_pose_ok [OF assms])
  moreover have "id_deref w (Some (length (actions w))) = None" by (rule id_deref_append)
  moreover have "id_deref ?w' (Some (length (actions w))) = Some (action_flip_with_pose K a po)"
    by (rule id_deref_append)
  moreover have "id_deref ?w' action = Some a" by (rule id_deref_append) (rule assms)
  moreover have "\<forall>p. id_deref w p \<noteq> None \<longrightarrow> id_deref ?w' p = id_deref w p"
    by (auto simp: id_deref_append)
  moreover have "interface_locked ?w' = interface_locked w" "?w' = w\<lparr>actions := actions ?w'\<rparr>"
    by simp_all
  ultimately show ?thesis by blast
qed

theorem flip_pose_copies_witness:
  "\<exists>w'. flip_pose example_kernel (example_session\<lparr>interface_locked := True\<rparr>)
            (Some POSE_OBJECT) (Some 0) = Some (1, w') \<and>
         id_deref w' (Some 0) = Some example_action \<and>
         id_deref w' (Some 1) = Some (example_action\<lparr>groups := [''R_arm'']\<rparr>) \<and>
         interface_locked w'"
proof -
  let ?w = "example_session\<lparr>interface_locked := True\<rparr>"
  have a: "id_deref ?w (Some 0) = Some example_action"
    and b: "ob_pose ?w (Some POSE_OBJECT) = Some example_blended"
    by (simp_all add: id_deref_def ob_pose_def example_defs)
  have f: "action_flip_with_pose example_kernel example_action example_blended =
      example_action\<lparr>groups := [''R_arm'']\<rparr>"
    by (simp add: example_defs)
  from flip_pose_copies [OF a b, of example_kernel] obtain action_copy w' where
    r: "flip_pose example_kernel ?w (Some POSE_OBJECT) (Some 0) = Some (action_copy, w')"
      "id_deref w' (Some action_copy) = Some (example_action\<lparr>groups := [''R_arm'']\<rparr>)"
      "id_deref w' (Some 0) = Some example_action"
      "interface_locked w' = interface_locked ?w"
    unfolding f by blast
  moreover have "action_copy = 1"
    using r(1) by (simp add: flip_pose_def BKE_id_copy_ex_def id_deref_def ob_pose_def example_defs)
  ultimately show ?thesis by simp
qed

lemma posecopy_ok:
  assumes "ob_pose w (ob pbd) = Some po" and "id_deref w (act pbd) = Some a"
  shows "poselib_backup_posecopy w pbd =
     Some (pbd\<lparr>pose_backup := Some (BKE_pose_backup_create_selected_bones po a),
               state := (if state pbd = POSE_BLEND_INIT then POSE_BLEND_BLENDING else state pbd)\<rparr>)"
  using assms by (cases pbd) (simp add: poselib_backup_posecopy_def Let_def)

lemma session_act: "session w pbd po b a \<Longrightarrow> \<exists>p. act pbd = Some p \<and> p < length (actions w)"
  by (cases "act pbd") (auto simp: session_def id_deref_def split: if_splits)

lemma flip_ok:
  assumes "session w pbd po b a"
  shows "poselib_blend_flip_pose K w =
     Some ((set_ob_pose w (BKE_pose_backup_restore b po))
           \<lparr>actions := flipped_actions K w pbd po a,
            customdata := Some (flipped_session K w pbd po b a)\<rparr>)"
proof -
  from session_act [OF assms] obtain p where p: "act pbd = Some p" "p < length (actions w)"
    by blast
  let ?fl = "action_flip_with_pose K a po"
  let ?w1 = "w\<lparr>actions := actions w @ [Some ?fl]\<rparr>"
  let ?n = "length (actions w)"
  from assms have s: "customdata w = Some pbd" "ob_pose w (ob pbd) = Some po"
    "pose_backup pbd = Some b" "id_deref w (act pbd) = Some a" by (simp_all add: session_def)
  have f: "flip_pose K w (ob pbd) (act pbd) = Some (?n, ?w1)"
    by (rule flip_pose_ok [OF s(4) s(2)])
  let ?w2 = "set_ob_pose ?w1 (BKE_pose_backup_restore b po)"
  have fr: "(if free_action pbd then BKE_id_free ?w2 (act pbd) else Some ?w2) =
      Some (?w2\<lparr>actions := flipped_actions K w pbd po a\<rparr>)"
    using p s(4) by (simp add: BKE_id_free_def flipped_actions_def id_deref_def nth_append Let_def)
  let ?w3 = "?w2\<lparr>actions := flipped_actions K w pbd po a\<rparr>"
  let ?pbd = "pbd\<lparr>pose_backup := None, free_action := True, act := Some ?n, needs_redraw := True\<rparr>"
  have "ob_pose ?w3 (ob ?pbd) = Some (BKE_pose_backup_restore b po)"
    using s(2) by (simp add: ob_pose_set_ob_pose)
  moreover have "id_deref ?w3 (act ?pbd) = Some ?fl"
    using p by (simp add: id_deref_def flipped_actions_def Let_def nth_append)
  ultimately have pc: "poselib_backup_posecopy ?w3 ?pbd =
      Some (flipped_session K w pbd po b a)"
    by (simp add: posecopy_ok flipped_session_def)
  show ?thesis
    using s f fr pc
    by (simp add: poselib_blend_flip_pose_def Let_def)
qed

lemma flip_ok_done:
  assumes "session w pbd po b a" and "state pbd \<noteq> POSE_BLEND_INIT"
  shows "\<exists>w' pbd'. poselib_blend_flip_pose K w = Some w' \<and> customdata w' = Some pbd' \<and>
           flip_done K w pbd po b a w' pbd'"
proof -
  from session_act [OF assms(1)] obtain p where p: "act pbd = Some p" "p < length (actions w)"
    by blast
  from assms(1) have a: "id_deref w (Some p) = Some a" by (simp add: session_def p)
  let ?w' = "(set_ob_pose w (BKE_pose_backup_restore b po))
           \<lparr>actions := flipped_actions K w pbd po a,
            customdata := Some (flipped_session K w pbd po b a)\<rparr>"
  have "poselib_blend_flip_pose K w = Some ?w'" by (rule flip_ok [OF assms(1)])
  moreover have "customdata ?w' = Some (flipped_session K w pbd po b a)" by simp
  moreover have "flip_done K w pbd po b a ?w' (flipped_session K w pbd po b a)"
    using p a assms(2)
    by (simp add: flip_done_def session_rig_set [OF assms(1)] flipped_session_def
          flipped_actions_def id_deref_def nth_append Let_def)
  ultimately show ?thesis by blast
qed

lemma handle_event_flip_key:
  assumes "customdata w = Some pbd" and "slider pbd = Some s"
    and "type event = EVT_FKEY" and "val event = KM_PRESS"
  shows "poselib_blend_handle_event K w event =
     Option.bind
       (poselib_blend_flip_pose K
          (w\<lparr>customdata := Some (poselib_blend_set_factor pbd (ED_slider_factor_get s))\<rparr>))
       (\<lambda>w'. Some (OPERATOR_RUNNING_MODAL, w'))"
  by (simp add: assms poselib_blend_handle_event_def ED_slider_modal_def slider_same
        poselib_blend_set_factor_def)

lemma session_factor:
  "session w pbd po b a \<Longrightarrow>
   session (w\<lparr>customdata := Some (poselib_blend_set_factor pbd f)\<rparr>)
     (poselib_blend_set_factor pbd f) po b a"
  by (simp add: session_def poselib_blend_set_factor_def)

lemma flip_done_factor:
  "flip_done K (w\<lparr>customdata := c\<rparr>) (poselib_blend_set_factor pbd f) po b a w' pbd' =
   flip_done K w pbd po b a w' pbd'"
  by (simp add: flip_done_def poselib_blend_set_factor_def)

text \<open>
  C4. On a session in the state \<open>POSE_BLEND_BLENDING\<close> or \<open>POSE_BLEND_ORIGINAL\<close>,
  \<^verbatim>\<open>poselib_blend_flip_pose\<close>, and with it the handler on a press of F, leaves the rig as the
  restored old backup, the old action freed if the session owned it, the session owning the
  flipped copy as its target, marked dirty, with a new backup taken from the restored rig for
  the flipped copy, and the state as it was.
\<close>

theorem flip_restores_then_swaps:
  assumes "session w pbd po b a"
    and "state pbd = POSE_BLEND_BLENDING \<or> state pbd = POSE_BLEND_ORIGINAL"
  shows "(\<exists>w' pbd'. poselib_blend_flip_pose K w = Some w' \<and> customdata w' = Some pbd' \<and>
            flip_done K w pbd po b a w' pbd') \<and>
         (slider pbd = Some s \<and> type event = EVT_FKEY \<and> val event = KM_PRESS \<longrightarrow>
            (\<exists>w' pbd'. poselib_blend_handle_event K w event = Some (OPERATOR_RUNNING_MODAL, w') \<and>
               customdata w' = Some pbd' \<and> flip_done K w pbd po b a w' pbd'))"
proof (intro conjI impI)
  from assms(2) have n: "state pbd \<noteq> POSE_BLEND_INIT" by auto
  show "\<exists>w' pbd'. poselib_blend_flip_pose K w = Some w' \<and> customdata w' = Some pbd' \<and>
            flip_done K w pbd po b a w' pbd'"
    by (rule flip_ok_done [OF assms(1) n])
  assume k: "slider pbd = Some s \<and> type event = EVT_FKEY \<and> val event = KM_PRESS"
  let ?f = "ED_slider_factor_get s"
  let ?w1 = "w\<lparr>customdata := Some (poselib_blend_set_factor pbd ?f)\<rparr>"
  from assms(1) have cd: "customdata w = Some pbd" by (simp add: session_def)
  from k have h: "poselib_blend_handle_event K w event =
      Option.bind (poselib_blend_flip_pose K ?w1) (\<lambda>w'. Some (OPERATOR_RUNNING_MODAL, w'))"
    by (simp add: handle_event_flip_key [OF cd])
  have "session ?w1 (poselib_blend_set_factor pbd ?f) po b a"
    by (rule session_factor [OF assms(1)])
  moreover from n have "state (poselib_blend_set_factor pbd ?f) \<noteq> POSE_BLEND_INIT"
    by (simp add: poselib_blend_set_factor_def)
  ultimately obtain w' pbd' where "poselib_blend_flip_pose K ?w1 = Some w'"
    "customdata w' = Some pbd'"
    "flip_done K ?w1 (poselib_blend_set_factor pbd ?f) po b a w' pbd'"
    using flip_ok_done by blast
  with h show "\<exists>w' pbd'. poselib_blend_handle_event K w event =
      Some (OPERATOR_RUNNING_MODAL, w') \<and>
      customdata w' = Some pbd' \<and> flip_done K w pbd po b a w' pbd'"
    by (simp add: flip_done_factor)
qed

theorem flip_restores_then_swaps_witness:
  "\<exists>w' pbd'. poselib_blend_handle_event example_kernel example_session (example_key EVT_FKEY) =
       Some (OPERATOR_RUNNING_MODAL, w') \<and>
     customdata w' = Some pbd' \<and>
     rig_pose w' = Some (example_pose\<lparr>flag := 2\<rparr>) \<and>
     pose_backup pbd' =
       Some \<lparr>is_bone_selection_relevant = False, backups = [(''R_arm'', [1, 0, 0])]\<rparr> \<and>
     act pbd' = Some 1 \<and> free_action pbd' \<and> needs_redraw pbd' \<and>
     state pbd' = POSE_BLEND_BLENDING"
proof -
  let ?s = "\<lparr>factor = FLT (3 / 5), allow_overshoot = False, last_cursor = 280\<rparr>"
  let ?pbd = "example_pbd\<lparr>state := POSE_BLEND_BLENDING\<rparr>"
  have s: "example_in_state POSE_BLEND_BLENDING = example_session"
    by (simp add: example_defs)
  have st: "state ?pbd = POSE_BLEND_BLENDING \<or> state ?pbd = POSE_BLEND_ORIGINAL" by simp
  have k: "slider ?pbd = Some ?s \<and> type (example_key EVT_FKEY) = EVT_FKEY \<and>
      val (example_key EVT_FKEY) = KM_PRESS"
    by (simp add: example_defs)
  have r: "BKE_pose_backup_restore example_backup example_blended = example_pose\<lparr>flag := 2\<rparr>"
    by (simp add: BKE_pose_backup_restore_def example_defs)
  have c: "BKE_pose_backup_create_selected_bones (example_pose\<lparr>flag := 2\<rparr>)
        (action_flip_with_pose example_kernel example_action example_blended) =
      \<lparr>is_bone_selection_relevant = False, backups = [(''R_arm'', [1, 0, 0])]\<rparr>"
    by (simp add: BKE_pose_backup_create_selected_bones_def BKE_pose_channel_find_name_def
          List.map_filter_def example_defs)
  have l: "length (actions example_session) = 1" by (simp add: example_defs)
  from flip_restores_then_swaps [OF example_is_session [of POSE_BLEND_BLENDING] st,
      THEN conjunct2, rule_format, OF k, of example_kernel]
  show ?thesis
    unfolding flip_done_def s r c l by auto
qed

subsection \<open>Handling an event\<close>

lemma posecopy_keeps:
  "poselib_backup_posecopy w pbd = Some pbd' \<Longrightarrow>
   blend_factor pbd' = blend_factor pbd \<and> slider pbd' = slider pbd \<and>
   needs_redraw pbd' = needs_redraw pbd \<and> ob pbd' = ob pbd \<and> act pbd' = act pbd \<and>
   free_action pbd' = free_action pbd"
  by (auto simp: poselib_backup_posecopy_def Let_def split: Option.bind_splits if_splits)

lemma flip_keeps:
  assumes "poselib_blend_flip_pose K w = Some w'" and "customdata w = Some pbd"
  shows "\<exists>pbd'. customdata w' = Some pbd' \<and> blend_factor pbd' = blend_factor pbd \<and>
           slider pbd' = slider pbd"
proof -
  from assms obtain w2 p2 pbd2 where
    "poselib_backup_posecopy w2
       (pbd\<lparr>pose_backup := None, free_action := True, act := Some p2, needs_redraw := True\<rparr>) =
     Some pbd2"
    "w' = w2\<lparr>customdata := Some pbd2\<rparr>"
    by (auto simp: poselib_blend_flip_pose_def Let_def split: Option.bind_splits prod.splits)
  then show ?thesis
    by (auto dest!: posecopy_keeps)
qed

lemma handle_event_factor:
  assumes "poselib_blend_handle_event K w event = Some (r, w')"
  shows "\<exists>pbd0 s0 pbd'. customdata w = Some pbd0 \<and> slider pbd0 = Some s0 \<and>
           customdata w' = Some pbd' \<and>
           slider pbd' = Some (ED_slider_modal K s0 event) \<and>
           blend_factor pbd' = CLAMPIS (ED_slider_factor_get (ED_slider_modal K s0 event)) (FLT 0) (FLT 1)"
proof -
  from assms obtain pbd0 s0 where c: "customdata w = Some pbd0" "slider pbd0 = Some s0"
    by (auto simp: poselib_blend_handle_event_def split: Option.bind_splits)
  let ?s = "ED_slider_modal K s0 event"
  let ?pbd = "poselib_blend_set_factor (pbd0\<lparr>slider := Some ?s\<rparr>) (ED_slider_factor_get ?s)"
  let ?w = "w\<lparr>customdata := Some ?pbd\<rparr>"
  have p: "blend_factor ?pbd = CLAMPIS (ED_slider_factor_get ?s) (FLT 0) (FLT 1)" "slider ?pbd = Some ?s"
    by (simp_all add: poselib_blend_set_factor_def)
  have "\<exists>pbd'. customdata w' = Some pbd' \<and> blend_factor pbd' = blend_factor ?pbd \<and>
      slider pbd' = slider ?pbd"
  proof (cases "type event = EVT_FKEY \<and> (val event = KM_PRESS \<or> val event = KM_NOTHING) \<and>
      \<not> (use_release_confirm ?pbd \<and> type event = init_event_type ?pbd \<and> val event = KM_RELEASE)")
    case True
    with assms c have "poselib_blend_flip_pose K ?w = Some w'"
      by (auto simp: poselib_blend_handle_event_def Let_def split: Option.bind_splits)
    moreover have "customdata ?w = Some ?pbd" by simp
    ultimately show ?thesis by (rule flip_keeps)
  next
    case False
    with assms c show ?thesis
      by (cases "type event")
        (auto simp: poselib_blend_handle_event_def Let_def split: if_splits)
  qed
  with c p show ?thesis by auto
qed


text \<open>
  C1. Every requested factor but NaN is hard-clamped by \<^verbatim>\<open>poselib_blend_set_factor\<close>: the
  stored factor lies in the closed interval [0, 1]; it is 0 for a request below 0 (also for
  the negative infinity), 1 for a request above 1 (also for the positive infinity) and the
  request itself for a request in [0, 1]. The request NaN is stored as NaN. The event handler
  stores, on every event, the factor that \<^verbatim>\<open>poselib_blend_set_factor\<close> makes of the reading of
  the slider, which is in [0, 1] unless the reading is NaN.
\<close>

theorem blend_factor_clamped:
  "(new_factor \<noteq> NAN \<longrightarrow>
      unit_interval (blend_factor (poselib_blend_set_factor pbd new_factor))) \<and>
   (float_lt new_factor (FLT 0) \<longrightarrow>
      blend_factor (poselib_blend_set_factor pbd new_factor) = FLT 0) \<and>
   (float_gt new_factor (FLT 1) \<longrightarrow>
      blend_factor (poselib_blend_set_factor pbd new_factor) = FLT 1) \<and>
   (unit_interval new_factor \<longrightarrow>
      blend_factor (poselib_blend_set_factor pbd new_factor) = new_factor) \<and>
   blend_factor (poselib_blend_set_factor pbd NAN) = NAN \<and>
   (\<forall>r w'. poselib_blend_handle_event K w event = Some (r, w') \<longrightarrow>
      (\<exists>pbd0 s0 pbd'. customdata w = Some pbd0 \<and> slider pbd0 = Some s0 \<and>
         customdata w' = Some pbd' \<and>
         blend_factor pbd' =
           blend_factor (poselib_blend_set_factor pbd0
             (ED_slider_factor_get (ED_slider_modal K s0 event))) \<and>
         (ED_slider_factor_get (ED_slider_modal K s0 event) \<noteq> NAN \<longrightarrow>
            unit_interval (blend_factor pbd'))))"
proof (intro conjI allI impI)
  assume "new_factor \<noteq> NAN"
  then show "unit_interval (blend_factor (poselib_blend_set_factor pbd new_factor))"
    by (simp add: poselib_blend_set_factor_def clamp_range)
next
  assume "float_lt new_factor (FLT 0)"
  then show "blend_factor (poselib_blend_set_factor pbd new_factor) = FLT 0"
    by (simp add: poselib_blend_set_factor_def clamp_below)
next
  assume "float_gt new_factor (FLT 1)"
  then show "blend_factor (poselib_blend_set_factor pbd new_factor) = FLT 1"
    by (simp add: poselib_blend_set_factor_def clamp_above)
next
  assume "unit_interval new_factor"
  then show "blend_factor (poselib_blend_set_factor pbd new_factor) = new_factor"
    by (simp add: poselib_blend_set_factor_def clamp_unit)
next
  show "blend_factor (poselib_blend_set_factor pbd NAN) = NAN"
    by (simp add: poselib_blend_set_factor_def clamp_nan)
next
  fix r w'
  assume "poselib_blend_handle_event K w event = Some (r, w')"
  from handle_event_factor [OF this] obtain pbd0 s0 pbd' where
    p: "customdata w = Some pbd0" "slider pbd0 = Some s0" "customdata w' = Some pbd'"
      "blend_factor pbd' =
         CLAMPIS (ED_slider_factor_get (ED_slider_modal K s0 event)) (FLT 0) (FLT 1)"
    by blast
  let ?f = "ED_slider_factor_get (ED_slider_modal K s0 event)"
  from p(4) have "blend_factor pbd' = blend_factor (poselib_blend_set_factor pbd0 ?f)"
    by (simp add: poselib_blend_set_factor_def)
  moreover from p(4) have "?f \<noteq> NAN \<longrightarrow> unit_interval (blend_factor pbd')"
    by (simp add: clamp_range)
  ultimately show "\<exists>pbd0 s0 pbd'. customdata w = Some pbd0 \<and> slider pbd0 = Some s0 \<and>
         customdata w' = Some pbd' \<and>
         blend_factor pbd' =
           blend_factor (poselib_blend_set_factor pbd0
             (ED_slider_factor_get (ED_slider_modal K s0 event))) \<and>
         (ED_slider_factor_get (ED_slider_modal K s0 event) \<noteq> NAN \<longrightarrow>
            unit_interval (blend_factor pbd'))"
    using p(1,2,3) by blast
qed

theorem blend_factor_clamped_witness:
  "blend_factor (poselib_blend_set_factor example_pbd (FLT (17 / 10))) = FLT 1 \<and>
   blend_factor (poselib_blend_set_factor example_pbd (FLT (- 4 / 10))) = FLT 0 \<and>
   blend_factor (poselib_blend_set_factor example_pbd (FLT (1 / 4))) = FLT (1 / 4) \<and>
   blend_factor (poselib_blend_set_factor example_pbd PLUS_INFINITY) = FLT 1 \<and>
   blend_factor (poselib_blend_set_factor example_pbd MINUS_INFINITY) = FLT 0 \<and>
   unit_interval (blend_factor (poselib_blend_set_factor example_pbd (FLT (17 / 10)))) \<and>
   unit_interval (blend_factor (poselib_blend_set_factor example_pbd (FLT (- 4 / 10)))) \<and>
   map_option (\<lambda>(r, w'). (r, map_option blend_factor (customdata w'),
                          map_option (map_option factor \<circ> slider) (customdata w')))
     (poselib_blend_handle_event example_kernel example_overshoot example_far_drag) =
   Some (OPERATOR_RUNNING_MODAL, Some (FLT 1), Some (Some (FLT (8 / 5))))"
proof -
  let ?pbd = "example_pbd\<lparr>needs_redraw := True, blend_factor := FLT 1,
       slider := Some \<lparr>factor = FLT (8 / 5), allow_overshoot = True, last_cursor = 580\<rparr>\<rparr>"
  have e: "poselib_blend_handle_event example_kernel example_overshoot example_far_drag =
      Some (OPERATOR_RUNNING_MODAL, example_session\<lparr>customdata := Some ?pbd\<rparr>)"
    by (simp add: example_overshoot_def example_far_drag_def poselib_blend_handle_event_def
          ED_slider_modal_def ED_slider_factor_get_def poselib_blend_set_factor_def CLAMPIS_def
          float_gt_def example_defs)
  have c: "customdata example_overshoot = Some (example_pbd\<lparr>slider :=
       Some \<lparr>factor = FLT (3 / 5), allow_overshoot = True, last_cursor = 280\<rparr>\<rparr>)"
    by (simp add: example_overshoot_def)
  note t = blend_factor_clamped [of _ example_pbd example_kernel example_overshoot
      example_far_drag]
  have "blend_factor (poselib_blend_set_factor example_pbd (FLT (17 / 10))) = FLT 1"
    using t [of "FLT (17 / 10)", THEN conjunct2, THEN conjunct2, THEN conjunct1]
    by (simp add: float_gt_def)
  moreover have "blend_factor (poselib_blend_set_factor example_pbd (FLT (- 4 / 10))) = FLT 0"
    using t [of "FLT (- 4 / 10)", THEN conjunct2, THEN conjunct1] by simp
  moreover have
    "blend_factor (poselib_blend_set_factor example_pbd (FLT (1 / 4))) = FLT (1 / 4)"
    using t [of "FLT (1 / 4)", THEN conjunct2, THEN conjunct2, THEN conjunct2, THEN conjunct1]
    by (simp add: unit_interval_def)
  moreover have "blend_factor (poselib_blend_set_factor example_pbd PLUS_INFINITY) = FLT 1"
    using t [of PLUS_INFINITY, THEN conjunct2, THEN conjunct2, THEN conjunct1]
    by (simp add: float_gt_def)
  moreover have "blend_factor (poselib_blend_set_factor example_pbd MINUS_INFINITY) = FLT 0"
    using t [of MINUS_INFINITY, THEN conjunct2, THEN conjunct1] by simp
  moreover have
    "unit_interval (blend_factor (poselib_blend_set_factor example_pbd (FLT (17 / 10))))"
    using t [of "FLT (17 / 10)", THEN conjunct1] by simp
  moreover have
    "unit_interval (blend_factor (poselib_blend_set_factor example_pbd (FLT (- 4 / 10))))"
    using t [of "FLT (- 4 / 10)", THEN conjunct1] by simp
  ultimately show ?thesis
    by (simp add: e)
qed

text \<open>
  C1, the request NaN. Both comparisons of \<^verbatim>\<open>CLAMPIS\<close> are false of NaN, so
  \<^verbatim>\<open>poselib_blend_set_factor\<close> stores NaN, which is not in [0, 1].
\<close>

theorem nan_factor_is_stored:
  "blend_factor (poselib_blend_set_factor example_pbd NAN) = NAN \<and>
   \<not> unit_interval (blend_factor (poselib_blend_set_factor example_pbd NAN))"
  by (simp add: poselib_blend_set_factor_def clamp_nan unit_interval_def)

subsection \<open>Opening a session\<close>

lemma ob_not_posable_upd [simp]:
  "ob_not_posable (w\<lparr>customdata := c\<rparr>) = ob_not_posable w"
  "get_poselib_object (w\<lparr>customdata := c\<rparr>) = get_poselib_object w"
  by (simp_all add: ob_not_posable_def get_poselib_object_def)

lemma init_data_no_object:
  "ob_not_posable w \<Longrightarrow>
   poselib_blend_init_data K w event =
     Some (False, w\<lparr>customdata := None,
                    reports := reports w @ [''Pose lib is only for armatures in pose mode'']\<rparr>)"
  by (simp add: poselib_blend_init_data_def ob_not_posable_def Let_def)

lemma init_data_no_asset:
  "\<not> ob_not_posable w \<Longrightarrow> asset_local_id w = None \<Longrightarrow>
   poselib_blend_init_data K w event =
     Some (False, w\<lparr>customdata := Some (calloc_PoseBlendData\<lparr>temp_id_consumer := True\<rparr>)\<rparr>)"
  by (simp add: poselib_blend_init_data_def ob_not_posable_def Let_def
        poselib_blend_init_get_action_def)

lemma posable_pose:
  "\<not> ob_not_posable w \<Longrightarrow> \<exists>po. rig_pose w = Some po \<and> get_poselib_object w = Some POSE_OBJECT"
  by (auto simp: ob_not_posable_def rig_pose_def ob_pose_def get_poselib_object_def
      split: option.splits)

lemma init_data_ok:
  assumes "\<not> ob_not_posable w" and "rig_pose w = Some po"
    and "id_deref w (asset_local_id w) = Some a0"
  shows "poselib_blend_init_data K w event =
     Some (True, (set_ob_pose w (init_pose po))
                 \<lparr>actions := init_actions K w po a0,
                  customdata := Some (init_pbd K w event po a0)\<rparr>)"
proof -
  from assms(3) obtain p0 where p0: "asset_local_id w = Some p0" "p0 < length (actions w)"
    "actions w ! p0 = Some a0"
    by (cases "asset_local_id w") (auto simp: id_deref_def split: if_splits)
  from assms(1,2) have ob: "get_poselib_object w = Some POSE_OBJECT"
    "ob_pose w (Some POSE_OBJECT) = Some po"
    using posable_pose by (auto simp: rig_pose_def)
  show ?thesis
  proof (cases "prop_flipped w")
    case False
    with assms p0 ob show ?thesis
      by (cases event)
        (simp_all add: poselib_blend_init_data_def poselib_blend_init_get_action_def Let_def
          calloc_PoseBlendData_def posecopy_ok init_pbd_def init_action_def init_actions_def
          init_pose_def ED_slider_create_def ED_slider_init_def ED_slider_factor_set_def
          ED_slider_allow_overshoot_set_def)
  next
    case True
    let ?w0 = "w\<lparr>customdata := Some (calloc_PoseBlendData\<lparr>temp_id_consumer := True\<rparr>)\<rparr>"
    have f: "flip_pose K ?w0 (Some POSE_OBJECT) (Some p0) =
      Some (length (actions w), ?w0\<lparr>actions := actions w @ [Some (action_flip_with_pose K a0 po)]\<rparr>)"
      using flip_pose_ok [of ?w0 "Some p0" a0 "Some POSE_OBJECT" po K] assms(3) ob p0
      by simp
    have d: "id_deref (w\<lparr>customdata := c, actions := actions w @ [x]\<rparr>)
        (Some (length (actions w))) = x" for x c
      by (simp add: id_deref_def)
    from True assms p0 ob f d show ?thesis
      by (cases event)
        (simp_all add: poselib_blend_init_data_def poselib_blend_init_get_action_def Let_def
          calloc_PoseBlendData_def posecopy_ok init_pbd_def init_action_def init_actions_def
          init_pose_def ED_slider_create_def ED_slider_init_def ED_slider_factor_set_def
          ED_slider_allow_overshoot_set_def)
  qed
qed

lemma init_data_session:
  assumes "\<not> ob_not_posable w" and "rig_pose w = Some po"
    and "id_deref w (asset_local_id w) = Some a0"
  shows "\<exists>w'. poselib_blend_init_data K w event = Some (True, w') \<and>
     session w' (init_pbd K w event po a0) (init_pose po)
       (BKE_pose_backup_create_selected_bones po (init_action K w po a0)) (init_action K w po a0)"
proof -
  let ?w' = "(set_ob_pose w (init_pose po))
                 \<lparr>actions := init_actions K w po a0,
                  customdata := Some (init_pbd K w event po a0)\<rparr>"
  from assms(3) obtain p0 where p0: "asset_local_id w = Some p0" "p0 < length (actions w)"
    "actions w ! p0 = Some a0"
    by (cases "asset_local_id w") (auto simp: id_deref_def split: if_splits)
  have "poselib_blend_init_data K w event = Some (True, ?w')" by (rule init_data_ok [OF assms])
  moreover have "ob_pose (set_ob_pose w (init_pose po)) (Some POSE_OBJECT) = Some (init_pose po)"
    using assms(2) by (auto simp: rig_pose_def ob_pose_set_ob_pose)
  then have "ob_pose ?w' (ob (init_pbd K w event po a0)) = Some (init_pose po)"
    by (simp add: init_pbd_def)
  moreover have "id_deref ?w' (act (init_pbd K w event po a0)) = Some (init_action K w po a0)"
    using p0 by (simp add: init_pbd_def init_actions_def init_action_def id_deref_def nth_append)
  ultimately show ?thesis
    by (simp add: session_def init_pbd_def)
qed

lemma init_data_True:
  assumes "poselib_blend_init_data K w event = Some (True, w')"
  shows "\<not> ob_not_posable w \<and> (\<exists>a0. id_deref w (asset_local_id w) = Some a0)"
proof -
  have 1: "\<not> ob_not_posable w"
    using assms init_data_no_object [of w K event] by auto
  have 2: "asset_local_id w \<noteq> None"
    using assms 1 init_data_no_asset [of w K event] by auto
  have "id_deref w (asset_local_id w) \<noteq> None"
  proof
    assume n: "id_deref w (asset_local_id w) = None"
    have "id_deref (w\<lparr>customdata := c\<rparr>) (asset_local_id w) = None" for c
      using n by simp
    with 1 2 n have "poselib_blend_init_data K w event = None"
      by (cases "prop_flipped w"; cases event)
        (auto simp: poselib_blend_init_data_def poselib_blend_init_get_action_def Let_def
          flip_pose_def poselib_backup_posecopy_def split: Option.bind_splits)
    with assms show False by simp
  qed
  with 1 show ?thesis by auto
qed

lemma lock_disjoint: "\<not> (bit POSE_LOCKED n \<and> bit POSE_DO_UNLOCK n)"
proof -
  have "POSE_LOCKED AND POSE_DO_UNLOCK = 0"
    by (simp add: POSE_LOCKED_def POSE_DO_UNLOCK_def)
  then have "bit (POSE_LOCKED AND POSE_DO_UNLOCK) n = bit (0::16 word) n" by simp
  then show ?thesis by (simp add: bit_and_iff)
qed

lemma lock_flags:
  "(f AND NOT POSE_DO_UNLOCK OR POSE_LOCKED) AND POSE_LOCKED = POSE_LOCKED"
  "(f AND NOT POSE_DO_UNLOCK OR POSE_LOCKED) AND POSE_DO_UNLOCK = 0"
  "(f OR POSE_DO_UNLOCK) AND POSE_DO_UNLOCK = POSE_DO_UNLOCK"
  using lock_disjoint
  by (auto simp: bit_eq_iff bit_and_iff bit_or_iff bit_not_iff)

lemma init_data_synced:
  assumes "poselib_blend_init_data K w (Some ev) = Some (True, w')"
    and "unit_interval (prop_blend_factor w)"
  shows "\<exists>pbd'. customdata w' = Some pbd' \<and> slider_synced pbd'"
proof -
  from init_data_True [OF assms(1)] obtain a0 where
    a: "\<not> ob_not_posable w" "id_deref w (asset_local_id w) = Some a0" by blast
  from posable_pose [OF a(1)] obtain po where po: "rig_pose w = Some po" by blast
  from init_data_ok [OF a(1) po a(2), of K "Some ev"] assms(1)
  have "customdata w' = Some (init_pbd K w (Some ev) po a0)" by auto
  moreover have "slider_synced (init_pbd K w (Some ev) po a0)"
    using assms(2)
    by (simp add: slider_synced_def init_pbd_def clamp_unit ED_slider_factor_get_def)
  ultimately show ?thesis by blast
qed

subsection \<open>The session through the events\<close>

lemma session_pbd_upd:
  assumes "session w pbd po b a"
    and "ob pbd' = ob pbd" and "pose_backup pbd' = pose_backup pbd" and "act pbd' = act pbd"
  shows "session (w\<lparr>customdata := Some pbd'\<rparr>) pbd' po b a"
  using assms by (simp add: session_def)

lemma handle_event_session:
  assumes "session w pbd po b a"
    and "poselib_blend_handle_event K w event = Some (r, w')"
  shows "r = OPERATOR_RUNNING_MODAL \<and>
         (\<exists>pbd' po' b' a'. session w' pbd' po' b' a' \<and> flag po' = flag po)"
proof -
  from assms(1) have cd: "customdata w = Some pbd" by (simp add: session_def)
  with assms(2) obtain s0 where s0: "slider pbd = Some s0"
    by (auto simp: poselib_blend_handle_event_def split: Option.bind_splits)
  let ?s = "ED_slider_modal K s0 event"
  let ?pbd = "poselib_blend_set_factor (pbd\<lparr>slider := Some ?s\<rparr>) (ED_slider_factor_get ?s)"
  let ?w = "w\<lparr>customdata := Some ?pbd\<rparr>"
  have s1: "session ?w ?pbd po b a"
    by (rule session_pbd_upd [OF assms(1)]) (simp_all add: poselib_blend_set_factor_def)
  show ?thesis
  proof (cases "type event = EVT_FKEY \<and> (val event = KM_PRESS \<or> val event = KM_NOTHING) \<and>
      \<not> (use_release_confirm ?pbd \<and> type event = init_event_type ?pbd \<and> val event = KM_RELEASE)")
    case True
    with assms(2) cd s0 have "poselib_blend_flip_pose K ?w = Some w'" "r = OPERATOR_RUNNING_MODAL"
      by (auto simp: poselib_blend_handle_event_def Let_def split: Option.bind_splits)
    with flip_ok [OF s1, of K] have
      w': "w' = (set_ob_pose ?w (BKE_pose_backup_restore b po))
           \<lparr>actions := flipped_actions K ?w ?pbd po a,
            customdata := Some (flipped_session K ?w ?pbd po b a)\<rparr>"
      and r: "r = OPERATOR_RUNNING_MODAL" by simp_all
    from session_act [OF s1] obtain p where p: "act ?pbd = Some p" "p < length (actions w)"
      by auto
    from s1 have "ob_pose ?w (ob ?pbd) = Some po" by (simp add: session_def)
    then have "ob_pose (set_ob_pose ?w (BKE_pose_backup_restore b po)) (ob ?pbd) =
      Some (BKE_pose_backup_restore b po)" by (rule ob_pose_set_ob_pose)
    then have "session w' (flipped_session K ?w ?pbd po b a) (BKE_pose_backup_restore b po)
      (BKE_pose_backup_create_selected_bones (BKE_pose_backup_restore b po)
         (action_flip_with_pose K a po)) (action_flip_with_pose K a po)"
      using p
      by (simp add: w' session_def flipped_session_def flipped_actions_def id_deref_def
            nth_append Let_def)
    with r show ?thesis by (auto intro!: exI simp: restore_flag)
  next
    case False
    with assms(2) cd s0 obtain pbd' where
      "r = OPERATOR_RUNNING_MODAL" "w' = w\<lparr>customdata := Some pbd'\<rparr>"
      "ob pbd' = ob pbd" "pose_backup pbd' = pose_backup pbd" "act pbd' = act pbd"
      by (cases "type event")
        (auto simp: poselib_blend_handle_event_def poselib_blend_set_factor_def Let_def
          split: if_splits)
    with session_pbd_upd [OF assms(1), of pbd'] show ?thesis by auto
  qed
qed

lemma cleanup_any:
  assumes "session w pbd po b a"
  shows "\<exists>w1 po'. poselib_blend_cleanup w = Some w1 \<and> customdata w1 = Some pbd \<and>
      id_deref w1 (act pbd) = Some a \<and> rig_pose w1 = Some po' \<and>
      flag po' = flag po OR POSE_DO_UNLOCK"
proof (cases "state pbd = POSE_BLEND_CONFIRM")
  case True
  from cleanup_confirm [OF assms this] obtain ks where
    "poselib_blend_cleanup w =
       Some ((set_ob_pose w (po\<lparr>flag := flag po OR POSE_DO_UNLOCK\<rparr>))
           \<lparr>prop_blend_factor := blend_factor pbd,
            trace := trace w @ cleanup_trace pbd @ ks @
              [DEG_id_tag_update, WM_event_add_notifier_pose, WM_event_add_mousemove]\<rparr>)"
    by blast
  with assms show ?thesis
    by (simp add: session_def session_rig_set [OF assms])
next
  case False
  show ?thesis
  proof (cases "state pbd = POSE_BLEND_CANCEL")
    case True
    from cleanup_cancel [OF assms this] assms show ?thesis
      by (simp add: session_def session_rig_set [OF assms])
  next
    case nc: False
    with False have "state pbd = POSE_BLEND_INIT \<or> state pbd = POSE_BLEND_BLENDING \<or>
         state pbd = POSE_BLEND_ORIGINAL" by (cases "state pbd") simp_all
    from cleanup_nonterminal [OF assms this] assms show ?thesis
      by (simp add: session_def session_rig_set [OF assms])
  qed
qed

lemma exit_any:
  assumes "session w pbd po b a"
  shows "\<exists>w' po'. poselib_blend_exit w =
             Some (if state pbd = POSE_BLEND_CANCEL then OPERATOR_CANCELLED
                   else OPERATOR_FINISHED, w') \<and>
           customdata w' = None \<and> rig_pose w' = Some po' \<and>
           flag po' = flag po OR POSE_DO_UNLOCK"
proof -
  from cleanup_any [OF assms]
  obtain w1 po' where c: "poselib_blend_cleanup w = Some w1" "customdata w1 = Some pbd"
    "id_deref w1 (act pbd) = Some a" "rig_pose w1 = Some po'"
    "flag po' = flag po OR POSE_DO_UNLOCK" by blast
  from free_ok [OF c(2,3)] obtain acts where
    f: "poselib_blend_free w1 = Some (w1\<lparr>customdata := None, actions := acts\<rparr>)" by blast
  from assms have "customdata w = Some pbd" by (simp add: session_def)
  with c f show ?thesis
    by (simp add: poselib_blend_exit_def Let_def)
qed

lemma modal_session:
  assumes "session w pbd po b a"
    and "poselib_blend_modal K w event = Some (r, w')"
  shows "\<exists>po'. rig_pose w' = Some po' \<and>
           (if r = OPERATOR_RUNNING_MODAL
            then flag po' = flag po \<and> (\<exists>pbd' b' a'. session w' pbd' po' b' a')
            else flag po' = flag po OR POSE_DO_UNLOCK \<and> customdata w' = None)"
proof -
  from assms(2) obtain r1 w1 where h: "poselib_blend_handle_event K w event = Some (r1, w1)"
    by (auto simp: poselib_blend_modal_def split: Option.bind_splits)
  from handle_event_session [OF assms(1) h] obtain pbd1 po1 b1 a1 where
    r1: "r1 = OPERATOR_RUNNING_MODAL" and s1: "session w1 pbd1 po1 b1 a1"
    and f1: "flag po1 = flag po" by blast
  from s1 have cd1: "customdata w1 = Some pbd1" by (simp add: session_def)
  show ?thesis
  proof (cases "state pbd1 = POSE_BLEND_CONFIRM \<or> state pbd1 = POSE_BLEND_CANCEL")
    case True
    with assms(2) h cd1 have "poselib_blend_exit w1 = Some (r, w')"
      by (simp add: poselib_blend_modal_def)
    with exit_any [OF s1] f1 show ?thesis by (auto split: if_splits)
  next
    case False
    show ?thesis
    proof (cases "needs_redraw pbd1")
      case True
      with False assms(2) h cd1 r1 obtain e where
        "poselib_blend_apply K (w1\<lparr>trace := trace w1 @ [e]\<rparr>) = Some w'"
        "r = OPERATOR_RUNNING_MODAL"
        by (auto simp: poselib_blend_modal_def Let_def split: Option.bind_splits)
      moreover from s1 have "session (w1\<lparr>trace := trace w1 @ [e]\<rparr>) pbd1 po1 b1 a1"
        by (simp add: session_def)
      from session_apply [OF this, of K] obtain w'' po'' where
        "poselib_blend_apply K (w1\<lparr>trace := trace w1 @ [e]\<rparr>) = Some w''"
        "session w'' (pbd1\<lparr>needs_redraw := False\<rparr>) po'' b1 a1" "flag po'' = flag po1"
        by blast
      ultimately show ?thesis using f1 by (auto simp: session_ob_pose)
    next
      case nr: False
      with False assms(2) h cd1 r1 have "w' = w1" "r = OPERATOR_RUNNING_MODAL"
        by (auto simp: poselib_blend_modal_def Let_def split: Option.bind_splits)
      with s1 f1 show ?thesis by (auto simp: session_ob_pose)
    qed
  qed
qed

lemma cancel_any:
  assumes "session w pbd po b a"
  shows "\<exists>w' po'. poselib_blend_cancel w = Some w' \<and> rig_pose w' = Some po' \<and>
           flag po' = flag po OR POSE_DO_UNLOCK"
proof -
  from assms have cd: "customdata w = Some pbd" by (simp add: session_def)
  from exit_any [OF session_state [OF assms, of POSE_BLEND_CANCEL]] cd
  show ?thesis by (auto simp: poselib_blend_cancel_def)
qed

subsection \<open>The lock on the pose\<close>

text \<open>
  C8. When \<^verbatim>\<open>poselib_blend_init_data\<close> succeeds, the pose of the rig has \<open>POSE_LOCKED\<close> set and
  \<open>POSE_DO_UNLOCK\<close> clear. On a session, a step of the modal handler that keeps the operator
  running leaves the flags of the pose as they were, and every teardown
  (\<^verbatim>\<open>poselib_blend_cleanup\<close>, \<^verbatim>\<open>poselib_blend_exit\<close>, the cancel callback, and the end of
  the modal handler) leaves \<open>POSE_DO_UNLOCK\<close> set.
\<close>

theorem pose_locked_for_session:
  "(\<forall>w'. poselib_blend_init_data K w event = Some (True, w') \<longrightarrow>
      (\<exists>po'. rig_pose w' = Some po' \<and> flag po' AND POSE_LOCKED = POSE_LOCKED \<and>
             flag po' AND POSE_DO_UNLOCK = 0)) \<and>
   (\<forall>pbd po b a. session w pbd po b a \<longrightarrow>
      (\<exists>w' po'. poselib_blend_cleanup w = Some w' \<and> rig_pose w' = Some po' \<and>
         flag po' AND POSE_DO_UNLOCK = POSE_DO_UNLOCK) \<and>
      (\<exists>r w' po'. poselib_blend_exit w = Some (r, w') \<and> rig_pose w' = Some po' \<and>
         flag po' AND POSE_DO_UNLOCK = POSE_DO_UNLOCK) \<and>
      (\<exists>w' po'. poselib_blend_cancel w = Some w' \<and> rig_pose w' = Some po' \<and>
         flag po' AND POSE_DO_UNLOCK = POSE_DO_UNLOCK) \<and>
      (\<forall>ev r w'. poselib_blend_modal K w ev = Some (r, w') \<longrightarrow>
         (\<exists>po'. rig_pose w' = Some po' \<and>
            (if r = OPERATOR_RUNNING_MODAL then flag po' = flag po
             else flag po' AND POSE_DO_UNLOCK = POSE_DO_UNLOCK))))"
proof (intro conjI allI impI)
  fix w'
  assume i: "poselib_blend_init_data K w event = Some (True, w')"
  from init_data_True [OF i] obtain a0 where
    a: "\<not> ob_not_posable w" "id_deref w (asset_local_id w) = Some a0" by blast
  from posable_pose [OF a(1)] obtain po where po: "rig_pose w = Some po" by blast
  from init_data_session [OF a(1) po a(2), of K event] i
  have "rig_pose w' = Some (init_pose po)" by (auto simp: session_ob_pose)
  then show "\<exists>po'. rig_pose w' = Some po' \<and> flag po' AND POSE_LOCKED = POSE_LOCKED \<and>
             flag po' AND POSE_DO_UNLOCK = 0"
    by (simp add: init_pose_def lock_flags)
next
  fix pbd po b a
  assume s: "session w pbd po b a"
  from cleanup_any [OF s]
  show "\<exists>w' po'. poselib_blend_cleanup w = Some w' \<and> rig_pose w' = Some po' \<and>
         flag po' AND POSE_DO_UNLOCK = POSE_DO_UNLOCK"
    by (auto simp: lock_flags)
  from exit_any [OF s]
  show "\<exists>r w' po'. poselib_blend_exit w = Some (r, w') \<and> rig_pose w' = Some po' \<and>
         flag po' AND POSE_DO_UNLOCK = POSE_DO_UNLOCK"
    by (auto simp: lock_flags)
  from cancel_any [OF s]
  show "\<exists>w' po'. poselib_blend_cancel w = Some w' \<and> rig_pose w' = Some po' \<and>
         flag po' AND POSE_DO_UNLOCK = POSE_DO_UNLOCK"
    by (auto simp: lock_flags)
  fix ev r w'
  assume "poselib_blend_modal K w ev = Some (r, w')"
  from modal_session [OF s this] obtain po' where p: "rig_pose w' = Some po'"
    and q: "if r = OPERATOR_RUNNING_MODAL
            then flag po' = flag po \<and> (\<exists>pbd' b' a'. session w' pbd' po' b' a')
            else flag po' = flag po OR POSE_DO_UNLOCK \<and> customdata w' = None"
    by blast
  have "if r = OPERATOR_RUNNING_MODAL then flag po' = flag po
        else flag po' AND POSE_DO_UNLOCK = POSE_DO_UNLOCK"
  proof (cases "r = OPERATOR_RUNNING_MODAL")
    case True
    with q show ?thesis by simp
  next
    case False
    with q show ?thesis by (simp add: lock_flags)
  qed
  with p show "\<exists>po'. rig_pose w' = Some po' \<and>
            (if r = OPERATOR_RUNNING_MODAL then flag po' = flag po
             else flag po' AND POSE_DO_UNLOCK = POSE_DO_UNLOCK)"
    by blast
qed

theorem pose_locked_for_session_witness:
  "(\<exists>w' po'. poselib_blend_init_data example_kernel example_world (Some example_click) =
        Some (True, w') \<and>
      rig_pose w' = Some po' \<and> flag po' AND POSE_LOCKED = POSE_LOCKED \<and>
      flag po' AND POSE_DO_UNLOCK = 0) \<and>
   (\<exists>r w' po'. poselib_blend_exit (example_in_state POSE_BLEND_CONFIRM) = Some (r, w') \<and>
      rig_pose w' = Some po' \<and> flag po' AND POSE_DO_UNLOCK = POSE_DO_UNLOCK) \<and>
   (\<exists>po'. rig_pose example_session = Some po' \<and> flag po' = 2)"
proof -
  let ?w1 = "example_opened\<lparr>trace := [],
      customdata := Some (example_opened_pbd\<lparr>needs_redraw := True\<rparr>)\<rparr>"
  have i: "poselib_blend_init_data example_kernel example_world (Some example_click) =
      Some (True, ?w1)"
    by (simp add: model_defs example_defs)
  note t = pose_locked_for_session [of example_kernel example_world "Some example_click"]
  note u = pose_locked_for_session [of example_kernel "example_in_state POSE_BLEND_CONFIRM"
      "Some example_click", THEN conjunct2, rule_format,
      OF example_is_session [of POSE_BLEND_CONFIRM]]
  note v = pose_locked_for_session [of example_kernel example_opened
      "Some example_click", THEN conjunct2, rule_format, THEN conjunct2, THEN conjunct2,
      THEN conjunct2, rule_format, of _ _ _ _ example_drag OPERATOR_RUNNING_MODAL example_session]
  have so: "session example_opened example_opened_pbd (example_pose\<lparr>flag := 2\<rparr>) example_backup
      example_action"
    by (simp add: session_def model_defs example_defs)
  have "\<exists>w' po'. poselib_blend_init_data example_kernel example_world (Some example_click) =
        Some (True, w') \<and>
      rig_pose w' = Some po' \<and> flag po' AND POSE_LOCKED = POSE_LOCKED \<and>
      flag po' AND POSE_DO_UNLOCK = 0"
    using t [THEN conjunct1, rule_format, OF i] i by blast
  moreover have "\<exists>r w' po'. poselib_blend_exit (example_in_state POSE_BLEND_CONFIRM) =
      Some (r, w') \<and>
      rig_pose w' = Some po' \<and> flag po' AND POSE_DO_UNLOCK = POSE_DO_UNLOCK"
    using u [THEN conjunct2, THEN conjunct1] .
  moreover have "\<exists>po'. rig_pose example_session = Some po' \<and> flag po' = 2"
    using v [OF so example_modal_drag] by simp
  ultimately show ?thesis by blast
qed

subsection \<open>The one-shot apply\<close>

lemma free_partial:
  "customdata w = None \<Longrightarrow> poselib_blend_free w = Some w"
  "customdata w = Some pbd \<Longrightarrow> \<not> free_action pbd \<Longrightarrow>
   poselib_blend_free w = Some (w\<lparr>customdata := None\<rparr>)"
  by (simp_all add: poselib_blend_free_def Let_def)

lemma exec_no_object:
  assumes "ob_not_posable w"
  shows "poselib_blend_exec K w =
     Some (OPERATOR_CANCELLED,
           w\<lparr>customdata := None,
              reports := reports w @ [''Pose lib is only for armatures in pose mode'']\<rparr>)"
  by (simp add: poselib_blend_exec_def init_data_no_object [OF assms] free_partial)

lemma exec_no_asset:
  assumes "\<not> ob_not_posable w" and "asset_local_id w = None"
  shows "poselib_blend_exec K w = Some (OPERATOR_CANCELLED, w\<lparr>customdata := None\<rparr>)"
proof -
  let ?pbd = "calloc_PoseBlendData\<lparr>temp_id_consumer := True\<rparr>"
  have "poselib_blend_free (w\<lparr>customdata := Some ?pbd\<rparr>) =
      Some (w\<lparr>customdata := Some ?pbd, customdata := None\<rparr>)"
    by (simp add: poselib_blend_free_def calloc_PoseBlendData_def Let_def)
  then show ?thesis
    by (simp add: poselib_blend_exec_def init_data_no_asset [OF assms])
qed

lemma exec_ok:
  assumes "\<not> ob_not_posable w" and "id_deref w (asset_local_id w) = Some a0"
  shows "\<exists>w1 w2 pbd2 w'. poselib_blend_init_data K w None = Some (True, w1) \<and>
           poselib_blend_apply K w1 = Some w2 \<and> customdata w2 = Some pbd2 \<and>
           poselib_blend_exit (w2\<lparr>customdata := Some (pbd2\<lparr>state := POSE_BLEND_CONFIRM\<rparr>)\<rparr>) =
             Some (OPERATOR_FINISHED, w') \<and>
           poselib_blend_exec K w = Some (OPERATOR_FINISHED, w') \<and> customdata w' = None"
proof -
  from posable_pose [OF assms(1)] obtain po where po: "rig_pose w = Some po" by blast
  from init_data_session [OF assms(1) po assms(2), of K None] obtain w1 pbd1 po1 b1 a1 where
    i: "poselib_blend_init_data K w None = Some (True, w1)" and s1: "session w1 pbd1 po1 b1 a1"
    by blast
  from session_apply [OF s1, of K] obtain w2 po2 where
    a: "poselib_blend_apply K w1 = Some w2"
    and s2: "session w2 (pbd1\<lparr>needs_redraw := False\<rparr>) po2 b1 a1" by blast
  let ?pbd2 = "pbd1\<lparr>needs_redraw := False\<rparr>"
  from s2 have cd: "customdata w2 = Some ?pbd2" by (simp add: session_def)
  from exit_any [OF session_state [OF s2, of POSE_BLEND_CONFIRM]] obtain w' where
    e: "poselib_blend_exit (w2\<lparr>customdata := Some (?pbd2\<lparr>state := POSE_BLEND_CONFIRM\<rparr>)\<rparr>) =
      Some (OPERATOR_FINISHED, w')" "customdata w' = None" by auto
  from i a cd e have "poselib_blend_exec K w = Some (OPERATOR_FINISHED, w')"
    by (simp add: poselib_blend_exec_def)
  with i a cd e show ?thesis by blast
qed

text \<open>
  C6. \<^verbatim>\<open>poselib_blend_exec\<close> returns on every context whose asset, when it resolves, resolves
  to a live action, and it leaves no session behind. It returns \<open>OPERATOR_CANCELLED\<close> exactly
  when \<^verbatim>\<open>poselib_blend_init_data\<close> fails, which is when the object of the context cannot be
  posed or the asset does not resolve; then rig, actions and emitted effects are untouched.
  Otherwise it returns \<open>OPERATOR_FINISHED\<close>, and the world it leaves is that of the
  initialisation, one \<^verbatim>\<open>poselib_blend_apply\<close>, the state set to \<open>POSE_BLEND_CONFIRM\<close> and
  \<^verbatim>\<open>poselib_blend_exit\<close>, in this order. It never returns \<open>OPERATOR_RUNNING_MODAL\<close>.
\<close>

theorem exec_cancelled_iff_init_fails:
  assumes "asset_local_id w = None \<or> id_deref w (asset_local_id w) \<noteq> None"
  shows "\<exists>r w'. poselib_blend_exec K w = Some (r, w') \<and> customdata w' = None \<and>
           r \<noteq> OPERATOR_RUNNING_MODAL \<and>
           (r = OPERATOR_CANCELLED \<longleftrightarrow>
              (\<exists>w1. poselib_blend_init_data K w None = Some (False, w1))) \<and>
           (r = OPERATOR_CANCELLED \<longleftrightarrow> ob_not_posable w \<or> asset_local_id w = None) \<and>
           (r = OPERATOR_CANCELLED \<longrightarrow>
              rig_pose w' = rig_pose w \<and> actions w' = actions w \<and> trace w' = trace w) \<and>
           (r \<noteq> OPERATOR_CANCELLED \<longrightarrow>
              r = OPERATOR_FINISHED \<and>
              (\<exists>w1 w2 pbd2. poselib_blend_init_data K w None = Some (True, w1) \<and>
                 poselib_blend_apply K w1 = Some w2 \<and> customdata w2 = Some pbd2 \<and>
                 poselib_blend_exit
                   (w2\<lparr>customdata := Some (pbd2\<lparr>state := POSE_BLEND_CONFIRM\<rparr>)\<rparr>) =
                   Some (OPERATOR_FINISHED, w')))"
proof (cases "ob_not_posable w")
  case True
  from exec_no_object [OF True, of K] init_data_no_object [OF True, of K None] True
  show ?thesis by simp
next
  case False
  show ?thesis
  proof (cases "asset_local_id w")
    case None
    from exec_no_asset [OF False None, of K] init_data_no_asset [OF False None, of K None]
      False None
    show ?thesis by simp
  next
    case (Some p0)
    with assms obtain a0 where "id_deref w (asset_local_id w) = Some a0" by auto
    from exec_ok [OF False this, of K] obtain w1 w2 pbd2 w' where
      "poselib_blend_init_data K w None = Some (True, w1)"
      "poselib_blend_apply K w1 = Some w2" "customdata w2 = Some pbd2"
      "poselib_blend_exit (w2\<lparr>customdata := Some (pbd2\<lparr>state := POSE_BLEND_CONFIRM\<rparr>)\<rparr>) =
             Some (OPERATOR_FINISHED, w')"
      "poselib_blend_exec K w = Some (OPERATOR_FINISHED, w')" "customdata w' = None"
      by blast
    with False Some show ?thesis by simp
  qed
qed

theorem exec_cancelled_iff_init_fails_witness:
  "(\<exists>w'. poselib_blend_exec example_kernel example_world = Some (OPERATOR_FINISHED, w') \<and>
          customdata w' = None) \<and>
   (\<exists>w'. poselib_blend_exec example_kernel (example_world\<lparr>asset_local_id := None\<rparr>) =
            Some (OPERATOR_CANCELLED, w') \<and> customdata w' = None \<and>
          rig_pose w' = Some example_pose)"
proof -
  let ?w = "example_world\<lparr>asset_local_id := None\<rparr>"
  have a: "asset_local_id example_world = None \<or>
      id_deref example_world (asset_local_id example_world) \<noteq> None"
    and b: "asset_local_id ?w = None \<or> id_deref ?w (asset_local_id ?w) \<noteq> None"
    by (simp_all add: id_deref_def example_defs)
  have c: "\<not> ob_not_posable example_world" "asset_local_id example_world \<noteq> None"
    "asset_local_id ?w = None" "rig_pose ?w = Some example_pose"
    by (simp_all add: ob_not_posable_def rig_pose_def ob_pose_def example_defs)
  from exec_cancelled_iff_init_fails [OF a, of example_kernel] c
  have "\<exists>w'. poselib_blend_exec example_kernel example_world = Some (OPERATOR_FINISHED, w') \<and>
          customdata w' = None" by auto
  moreover from exec_cancelled_iff_init_fails [OF b, of example_kernel] c
  have "\<exists>w'. poselib_blend_exec example_kernel ?w = Some (OPERATOR_CANCELLED, w') \<and>
      customdata w' = None \<and> rig_pose w' = Some example_pose" by auto
  ultimately show ?thesis by blast
qed

subsection \<open>The stored factor follows the slider\<close>

lemma synced_cong:
  "slider_synced pbd \<Longrightarrow> blend_factor pbd' = blend_factor pbd \<Longrightarrow>
   slider pbd' = slider pbd \<Longrightarrow> slider_synced pbd'"
  by (simp add: slider_synced_def split: option.splits)

lemma apply_keeps:
  assumes "poselib_blend_apply K w = Some w'" and "customdata w = Some pbd"
  shows "\<exists>pbd'. customdata w' = Some pbd' \<and> blend_factor pbd' = blend_factor pbd \<and>
           slider pbd' = slider pbd"
  using assms
  by (auto simp: poselib_blend_apply_def Let_def split: Option.bind_splits if_splits)



lemma invoke_synced:
  assumes "poselib_blend_invoke K w ev = Some (OPERATOR_RUNNING_MODAL, w')"
    and "unit_interval (prop_blend_factor w)"
  shows "\<exists>pbd'. customdata w' = Some pbd' \<and> slider_synced pbd'"
proof -
  from assms(1) obtain w1 w2 where i: "poselib_blend_init_data K w (Some ev) = Some (True, w1)"
    and a: "poselib_blend_apply K (w1\<lparr>trace := trace w1 @ [WM_cursor_modal_set]\<rparr>) = Some w2"
    and w': "w' = w2\<lparr>trace := trace w2 @ [WM_event_add_modal_handler]\<rparr>"
    by (auto simp: poselib_blend_invoke_def Let_def split: Option.bind_splits if_splits)
  from init_data_synced [OF i assms(2)] obtain pbd1 where
    p: "customdata w1 = Some pbd1" "slider_synced pbd1" by blast
  then have "customdata (w1\<lparr>trace := trace w1 @ [WM_cursor_modal_set]\<rparr>) = Some pbd1" by simp
  from apply_keeps [OF a this] p(2) w' show ?thesis
    by (auto intro: synced_cong)
qed

subsection \<open>The sessions that the operator reaches\<close>















end
